theory Spec2Isabelle
  imports Complex_Main "HOL-Library.Sublist" "HOL-Library.Multiset"
begin

section \<open>Daily phrase dispatcher: batch dispatch and deferred retries\<close>

text \<open>
  A shallow embedding of \<^verbatim>\<open>envio_frases2.py\<close> (classes \<^verbatim>\<open>MetricsCollector\<close>,
  \<^verbatim>\<open>FailedUsersManager\<close>, \<^verbatim>\<open>FraseDiariaManager\<close> and \<^verbatim>\<open>main\<close>) and of
  \<^verbatim>\<open>EmailService.enviar_correo\<close> from \<^verbatim>\<open>email_service.py\<close>.

  Conventions of the model.
  \<^item> A \<^verbatim>\<open>datetime\<close> is an integer: the number of microseconds (the resolution of Python's
    \<^verbatim>\<open>datetime\<close>) since 0001-01-01T00:00:00, from 0 to \<open>datetime_max\<close>, the last
    microsecond of the year 9999. \<^verbatim>\<open>isoformat\<close> followed by \<^verbatim>\<open>fromisoformat\<close> is the
    identity on such values, so the file stores the integer itself. Arithmetic that leaves
    the range raises \<^verbatim>\<open>OverflowError\<close>, as in Python.
  \<^item> Durations measured with \<^verbatim>\<open>time.time()\<close> are real numbers; floating-point rounding
    is not modelled.
  \<^item> A Python \<^verbatim>\<open>str\<close> is a \<^typ>\<open>string\<close>. All text the code searches for is ASCII, and
    an ASCII text occurs in a UTF-8 byte sequence exactly where it occurs in the sequence
    of code points.
  \<^item> Every reading of a clock, every answer of a collaborator (database, SMTP server,
    file system) and the completion order of the thread pool is an input of the model.
    The thread pool itself is not modelled: a batch is the sequence of its recipients in
    the order in which their futures complete, each exactly once.
  \<^item> Logging is not modelled.
\<close>

subsection \<open>Data\<close>

text \<open>A row of \<^verbatim>\<open>usuarios\<close> as \<^verbatim>\<open>UserService.get_active_users\<close> selects it. No code of
  the dispatcher reads \<^verbatim>\<open>fecha_registro\<close>, but \<^verbatim>\<open>json.dump\<close> has to serialise it: the
  database returns a \<^verbatim>\<open>datetime\<close> object for it, here \<open>Some\<close> of its value, and \<open>None\<close>
  for \<^verbatim>\<open>NULL\<close>. A row read back from the retry file carries no \<^verbatim>\<open>datetime\<close> object (JSON
  has none), so there the field is \<open>None\<close>.\<close>

record usuario =
  id_usuario :: int
  email :: string
  nombre :: "string option"
  tipo_suscripcion :: string
  fecha_registro :: "int option"

text \<open>The row of \<^verbatim>\<open>frases_dia\<close> for today (\<^verbatim>\<open>SELECT *\<close>). The dispatcher reads \<^verbatim>\<open>id\<close> and
  \<^verbatim>\<open>frase\<close>; \<^verbatim>\<open>creado_en\<close> is a \<^verbatim>\<open>datetime\<close> of the same kind as \<^verbatim>\<open>fecha_registro\<close>. The
  other columns (\<^verbatim>\<open>dia_del_ano\<close>, \<^verbatim>\<open>significado\<close>, \<^verbatim>\<open>ejemplo\<close>) are a number and texts, which
  JSON holds as they are.\<close>

record frase_data =
  id_frase :: int
  frase :: string
  creado_en :: "int option"

text \<open>The dictionary \<^verbatim>\<open>{'usuario': ..., 'error': ..., 'is_network_error': ...}\<close> that
  \<^verbatim>\<open>procesar_usuario\<close> returns for a failed delivery.\<close>

datatype fallo = Fallo (f_usuario: usuario) (f_error: string) (f_is_network_error: bool)

datatype excepcion =
  OSError | JSONDecodeError | TypeError | ValueError | KeyError | OverflowError | DBError
  | SMTPException

text \<open>\<^verbatim>\<open>EMAIL_CONFIG\<close>: the four numeric settings the dispatcher reads. Each is
  \<^verbatim>\<open>int(os.getenv(...))\<close>, so any integer can occur.\<close>

record config =
  max_retries :: int
  batch_size :: int
  max_workers :: int
  retry_delay_minutes :: int

definition EMAIL_CONFIG_defecto :: config where
  "EMAIL_CONFIG_defecto =
     \<lparr>max_retries = 3, batch_size = 50, max_workers = 5, retry_delay_minutes = 30\<rparr>"

text \<open>The last \<^verbatim>\<open>datetime\<close>: 9999-12-31T23:59:59.999999, the end of day 3652059.\<close>

definition datetime_max :: int where
  "datetime_max = 315537897599999999"

text \<open>\<^verbatim>\<open>timedelta(minutes=m)\<close> in microseconds.\<close>

definition timedelta_minutes :: "int \<Rightarrow> int" where
  "timedelta_minutes m = m * 60000000"

text \<open>\<^verbatim>\<open>datetime.now() + timedelta(minutes=m)\<close>. The constructor of \<^verbatim>\<open>timedelta\<close> raises
  \<^verbatim>\<open>OverflowError\<close> when the number of whole days, \<open>m div 1440\<close>, exceeds 999999999 in
  magnitude, and the addition raises it when the sum is not a \<^verbatim>\<open>datetime\<close>.\<close>

definition sin_desborde :: "int \<Rightarrow> int \<Rightarrow> bool" where
  "sin_desborde ahora m =
     (- 999999999 \<le> m div 1440 \<and> m div 1440 \<le> 999999999
      \<and> 0 \<le> ahora + timedelta_minutes m \<and> ahora + timedelta_minutes m \<le> datetime_max)"

definition fecha_tras :: "int \<Rightarrow> int \<Rightarrow> excepcion + int" where
  "fecha_tras ahora m =
     (if sin_desborde ahora m then Inr (ahora + timedelta_minutes m) else Inl OverflowError)"

text \<open>\<^verbatim>\<open>try: body except Exception as e: handler\<close>, for a body without effect on the
  state when it raises.\<close>

definition capturar :: "excepcion + 'a \<Rightarrow> (excepcion \<Rightarrow> 'a) \<Rightarrow> excepcion + 'a" where
  "capturar cuerpo manejador =
     (case cuerpo of Inl e \<Rightarrow> Inr (manejador e) | Inr v \<Rightarrow> Inr v)"

subsection \<open>\<^verbatim>\<open>FraseDiariaManager.is_network_error\<close>\<close>

definition network_error_indicators :: "string list" where
  "network_error_indicators =
     [''Network is unreachable'',
      ''Connection refused'',
      ''Connection timed out'',
      ''Name or service not known'',
      ''Temporary failure in name resolution'',
      ''No route to host'',
      ''Connection reset by peer'']"

text \<open>Python's \<^verbatim>\<open>indicator in error_msg\<close> on strings is \<^const>\<open>sublist\<close>: the indicator
  occurs as a contiguous, case-sensitive piece of the message.\<close>

definition is_network_error :: "string \<Rightarrow> bool" where
  "is_network_error error_msg =
     list_ex (\<lambda>indicator. sublist indicator error_msg) network_error_indicators"

subsection \<open>\<^verbatim>\<open>MetricsCollector\<close>\<close>

text \<open>The dictionary \<^verbatim>\<open>self.metrics\<close> while a run collects. \<^verbatim>\<open>tiempo_total\<close> is written
  only by \<^verbatim>\<open>finalizar\<close> and appears in the finalised record below. Every mutating
  method runs under the collector's lock, so each is one atomic step.\<close>

record metricas =
  m_total_usuarios :: nat
  m_exitosos :: nat
  m_fallidos :: nat
  m_reintentos_diferidos :: nat
  m_errores :: "string list"
  m_tiempo_promedio_envio :: "real list"
  m_errores_red :: nat
  m_otros_errores :: nat

text \<open>What \<^verbatim>\<open>finalizar\<close> returns: the same dictionary, with \<^verbatim>\<open>tiempo_total\<close> set and the
  list under \<^verbatim>\<open>tiempo_promedio_envio\<close> replaced by its mean. Every run calls
  \<^verbatim>\<open>finalizar\<close> once, as the last use of the collector.\<close>

record metricas_finales =
  mf_total_usuarios :: nat
  mf_exitosos :: nat
  mf_fallidos :: nat
  mf_reintentos_diferidos :: nat
  mf_errores :: "string list"
  mf_tiempo_total :: real
  mf_tiempo_promedio_envio :: real
  mf_errores_red :: nat
  mf_otros_errores :: nat

definition metricas_iniciales :: metricas where
  "metricas_iniciales =
     \<lparr>m_total_usuarios = 0, m_exitosos = 0, m_fallidos = 0, m_reintentos_diferidos = 0,
      m_errores = [], m_tiempo_promedio_envio = [], m_errores_red = 0,
      m_otros_errores = 0\<rparr>"

definition add_success :: "real \<Rightarrow> metricas \<Rightarrow> metricas" where
  "add_success tiempo_envio m =
     m\<lparr>m_exitosos := m_exitosos m + 1,
       m_tiempo_promedio_envio := m_tiempo_promedio_envio m @ [tiempo_envio]\<rparr>"

definition add_failure :: "string \<Rightarrow> bool \<Rightarrow> metricas \<Rightarrow> metricas" where
  "add_failure error is_net m =
     (let m1 = m\<lparr>m_fallidos := m_fallidos m + 1, m_errores := m_errores m @ [error]\<rparr>
      in if is_net then m1\<lparr>m_errores_red := m_errores_red m1 + 1\<rparr>
         else m1\<lparr>m_otros_errores := m_otros_errores m1 + 1\<rparr>)"

definition add_deferred_retry :: "metricas \<Rightarrow> metricas" where
  "add_deferred_retry m = m\<lparr>m_reintentos_diferidos := m_reintentos_diferidos m + 1\<rparr>"

definition set_total_usuarios :: "nat \<Rightarrow> metricas \<Rightarrow> metricas" where
  "set_total_usuarios total_u m = m\<lparr>m_total_usuarios := total_u\<rparr>"

text \<open>\<^verbatim>\<open>finalizar\<close>; \<open>transcurrido\<close> is \<^verbatim>\<open>time.time() - self.start_time\<close>.\<close>

definition finalizar :: "real \<Rightarrow> metricas \<Rightarrow> metricas_finales" where
  "finalizar transcurrido m =
     \<lparr>mf_total_usuarios = m_total_usuarios m,
      mf_exitosos = m_exitosos m,
      mf_fallidos = m_fallidos m,
      mf_reintentos_diferidos = m_reintentos_diferidos m,
      mf_errores = m_errores m,
      mf_tiempo_total = transcurrido,
      mf_tiempo_promedio_envio =
        (if m_tiempo_promedio_envio m \<noteq> []
         then sum_list (m_tiempo_promedio_envio m) / real (length (m_tiempo_promedio_envio m))
         else 0),
      mf_errores_red = m_errores_red m,
      mf_otros_errores = m_otros_errores m\<rparr>"

text \<open>One call of a mutating method by a worker, and a sequence of such calls in the
  order in which the lock admits them.\<close>

datatype evento = Exito real | Error string bool

fun registrar :: "evento \<Rightarrow> metricas \<Rightarrow> metricas" where
  "registrar (Exito t) m = add_success t m"
| "registrar (Error e n) m = add_failure e n m"

fun registrar_todos :: "evento list \<Rightarrow> metricas \<Rightarrow> metricas" where
  "registrar_todos [] m = m"
| "registrar_todos (ev # evs) m = registrar_todos evs (registrar ev m)"

subsection \<open>\<^verbatim>\<open>FailedUsersManager\<close>\<close>

text \<open>The dictionary \<^verbatim>\<open>data\<close> that \<^verbatim>\<open>save_failed_users\<close> dumps as JSON, and the dictionary
  that \<^verbatim>\<open>json.load\<close> returns to \<^verbatim>\<open>load_failed_users\<close>. \<^verbatim>\<open>load_failed_users\<close> reads the keys
  \<^verbatim>\<open>retry_after\<close> and \<^verbatim>\<open>failed_users\<close> only, so a dictionary it returns may lack the key
  \<^verbatim>\<open>frase_data\<close>: then \<open>r_frase_data\<close> is \<open>None\<close>. The elements of \<^verbatim>\<open>failed_users\<close> and the
  rows in them are as \<^verbatim>\<open>save_failed_users\<close> writes them.\<close>

record registro =
  timestamp :: int
  r_frase_data :: "frase_data option"
  failed_users :: "fallo list"
  retry_after :: int

text \<open>The file \<^verbatim>\<open>FAILED_USERS_FILE\<close>: absent; present but not openable for reading;
  present with a content on which the body of the \<^verbatim>\<open>try\<close> of \<^verbatim>\<open>load_failed_users\<close> raises
  (not JSON, or without a \<^verbatim>\<open>retry_after\<close> that parses as a date, or without
  \<^verbatim>\<open>failed_users\<close>); or present with a dictionary that this body reads without raising.\<close>

datatype archivo = Ausente | Ilegible | Corrupto | Valido registro

text \<open>What the environment does when the file is opened for writing and the record dumped:
  it lets both succeed; \<^verbatim>\<open>open\<close> raises and the file stays as it was; or writing raises
  after \<^verbatim>\<open>open\<close> has truncated the file, which is left with a piece of JSON at most.\<close>

datatype escritura = EscrituraOk | FalloAbrir | FalloVolcado

record sistema_archivos =
  archivo :: archivo
  escritura :: escritura
  borrado_ok :: bool

text \<open>\<^verbatim>\<open>json.dump\<close> raises \<^verbatim>\<open>TypeError\<close> on a \<^verbatim>\<open>datetime\<close> object: the dictionary can be
  dumped only when neither the phrase nor any recipient's row holds one.\<close>

definition serializable :: "registro \<Rightarrow> bool" where
  "serializable data =
     ((case r_frase_data data of None \<Rightarrow> True | Some fr \<Rightarrow> creado_en fr = None)
      \<and> list_all (\<lambda>item. fecha_registro (f_usuario item) = None) (failed_users data))"

text \<open>The body of the \<^verbatim>\<open>try\<close> of \<^verbatim>\<open>save_failed_users\<close>: \<^verbatim>\<open>open(..., 'w')\<close>, then
  \<^verbatim>\<open>json.dump\<close>, which writes piece by piece and so leaves a truncated file when it
  raises.\<close>

definition escribir :: "registro \<Rightarrow> sistema_archivos \<Rightarrow> (excepcion + unit) \<times> sistema_archivos" where
  "escribir data fs =
     (case escritura fs of
        FalloAbrir \<Rightarrow> (Inl OSError, fs)
      | FalloVolcado \<Rightarrow> (Inl OSError, fs\<lparr>archivo := Corrupto\<rparr>)
      | EscrituraOk \<Rightarrow>
          if serializable data then (Inr (), fs\<lparr>archivo := Valido data\<rparr>)
          else (Inl TypeError, fs\<lparr>archivo := Corrupto\<rparr>))"

text \<open>\<^verbatim>\<open>save_failed_users\<close>; \<open>ahora_marca\<close> and \<open>ahora\<close> are the two readings of
  \<^verbatim>\<open>datetime.now()\<close>, for \<^verbatim>\<open>timestamp\<close> and for \<^verbatim>\<open>retry_after\<close>. The dictionary, and with
  it \<^verbatim>\<open>retry_after\<close>, is built before the \<^verbatim>\<open>try\<close>: an \<^verbatim>\<open>OverflowError\<close> of the date
  arithmetic reaches the caller, while every exception of the write is caught and
  logged.\<close>

definition save_failed_users ::
  "config \<Rightarrow> int \<Rightarrow> int \<Rightarrow> fallo list \<Rightarrow> frase_data \<Rightarrow> sistema_archivos
   \<Rightarrow> excepcion + sistema_archivos" where
  "save_failed_users cfg ahora_marca ahora fallidos fr fs =
     (case fecha_tras ahora (retry_delay_minutes cfg) of
        Inl e \<Rightarrow> Inl e
      | Inr despues \<Rightarrow>
          (let data = \<lparr>timestamp = ahora_marca, r_frase_data = Some fr,
                       failed_users = fallidos, retry_after = despues\<rparr>
           in case escribir data fs of
                (Inr u, fs') \<Rightarrow> Inr fs'
              | (Inl e, fs') \<Rightarrow> Inr fs'))"

text \<open>The body of the \<^verbatim>\<open>try\<close> of \<^verbatim>\<open>load_failed_users\<close>: open, parse, compare. It returns
  the dictionary as it was parsed, without looking at \<^verbatim>\<open>frase_data\<close>.\<close>

definition leer :: "int \<Rightarrow> sistema_archivos \<Rightarrow> excepcion + registro option" where
  "leer ahora fs =
     (case archivo fs of
        Ausente \<Rightarrow> Inl OSError
      | Ilegible \<Rightarrow> Inl OSError
      | Corrupto \<Rightarrow> Inl JSONDecodeError
      | Valido data \<Rightarrow> Inr (if ahora \<ge> retry_after data then Some data else None))"

definition load_failed_users :: "int \<Rightarrow> sistema_archivos \<Rightarrow> excepcion + registro option" where
  "load_failed_users ahora fs =
     (if archivo fs = Ausente then Inr None
      else capturar (leer ahora fs) (\<lambda>e. None))"

definition borrar :: "sistema_archivos \<Rightarrow> excepcion + sistema_archivos" where
  "borrar fs = (if borrado_ok fs then Inr (fs\<lparr>archivo := Ausente\<rparr>) else Inl OSError)"

definition clear_failed_users :: "sistema_archivos \<Rightarrow> excepcion + sistema_archivos" where
  "clear_failed_users fs =
     capturar (if archivo fs \<noteq> Ausente then borrar fs else Inr fs) (\<lambda>e. fs)"

subsection \<open>\<^verbatim>\<open>EmailService.enviar_correo\<close>\<close>

text \<open>What a call returns to its caller: a value, or an exception with its text
  \<^verbatim>\<open>str(e)\<close>.\<close>

datatype llamada = Devuelve bool | Lanza string

text \<open>The loop \<^verbatim>\<open>for intento in range(1, max_intentos + 1)\<close>. \<open>sesion intento\<close> is what
  building the message and the SMTP session (\<^verbatim>\<open>starttls\<close>, \<^verbatim>\<open>login\<close>, \<^verbatim>\<open>send_message\<close>)
  do at that attempt. Both handlers, for \<^verbatim>\<open>smtplib.SMTPException\<close> and for
  \<^verbatim>\<open>Exception\<close>, log, sleep and go on to the next attempt.\<close>

fun intentar_envio :: "(nat \<Rightarrow> excepcion + unit) \<Rightarrow> nat list \<Rightarrow> bool" where
  "intentar_envio sesion [] = False"
| "intentar_envio sesion (intento # resto) =
     (case sesion intento of
        Inr u \<Rightarrow> True
      | Inl e \<Rightarrow> intentar_envio sesion resto)"

definition enviar_correo ::
  "(frase_data \<Rightarrow> usuario \<Rightarrow> nat \<Rightarrow> excepcion + unit) \<Rightarrow> frase_data \<Rightarrow> usuario \<Rightarrow> llamada" where
  "enviar_correo smtp fr u = Devuelve (intentar_envio (smtp fr u) [1, 2, 3])"

subsection \<open>The environment and the state of a run\<close>

text \<open>The inputs of one run: what \<^verbatim>\<open>self.email_service.enviar_correo\<close> does for a
  recipient, the duration \<^verbatim>\<open>procesar_usuario\<close> measures around it, for every submitted
  batch the rank at which the future at each position completes, the answers of
  \<^verbatim>\<open>obtener_frase_dia\<close> and \<^verbatim>\<open>get_active_users\<close>, and the clock: \<^verbatim>\<open>datetime.now()\<close> as read by
  \<^verbatim>\<open>load_failed_users\<close> and twice by \<^verbatim>\<open>save_failed_users\<close>, and the elapsed time
  \<^verbatim>\<open>finalizar\<close> computes. In the program as shipped the first input is \<open>enviar_correo smtp\<close>
  for the SMTP server at hand, a call that never raises; \<^verbatim>\<open>procesar_usuario\<close> also handles
  a call that raises, so the input may be one.\<close>

record entorno =
  e_enviar_correo :: "frase_data \<Rightarrow> usuario \<Rightarrow> llamada"
  e_duracion :: "usuario \<Rightarrow> real"
  e_turno :: "usuario list \<Rightarrow> nat \<Rightarrow> nat"
  e_frase_dia :: "excepcion + frase_data option"
  e_usuarios_activos :: "excepcion + usuario list"
  e_ahora_carga :: int
  e_ahora_marca :: int
  e_ahora_guardado :: int
  e_transcurrido :: real

text \<open>The state a run changes: the retry file, the metrics collector, the rows
  \<^verbatim>\<open>registrar_envio\<close> was asked to insert (it reports a database error by returning
  \<^verbatim>\<open>False\<close>, which no caller reads), and the recipients \<^verbatim>\<open>enviar_correo\<close> was called
  for.\<close>

record mundo =
  fs :: sistema_archivos
  metrics :: metricas
  trazabilidad :: "(int \<times> int \<times> string \<times> string option) list"
  intentos :: "usuario list"

definition mundo_inicial :: "sistema_archivos \<Rightarrow> mundo" where
  "mundo_inicial fs0 =
     \<lparr>fs = fs0, metrics = metricas_iniciales, trazabilidad = [], intentos = []\<rparr>"

text \<open>The dictionary a run returns: \<^verbatim>\<open>{'success': False, 'error': ...}\<close> or the summary.
  \<^verbatim>\<open>errores_red\<close> and \<^verbatim>\<open>otros_errores\<close> are set by a fresh run only. \<^verbatim>\<open>tasa_exito\<close>, a
  rounded floating-point percentage that only the report prints, is left out.\<close>

record resumen =
  r_is_retry :: bool
  r_frase_id :: int
  r_total_usuarios :: nat
  r_exitosos :: nat
  r_fallidos :: nat
  r_errores_red :: "nat option"
  r_otros_errores :: "nat option"
  r_usuarios_exitosos :: "usuario list"
  r_usuarios_fallidos :: "fallo list"
  r_frase :: string
  r_metricas :: metricas_finales

datatype resultados = Fracaso string | Resumen resumen

subsection \<open>\<^verbatim>\<open>FraseDiariaManager.procesar_usuario\<close> and \<^verbatim>\<open>procesar_lote\<close>\<close>

text \<open>The value \<^verbatim>\<open>procesar_usuario\<close> returns: \<^verbatim>\<open>None\<close>, the recipient's own dictionary
  (which has no key \<^verbatim>\<open>'error'\<close>), or the failure dictionary.\<close>

datatype resultado = RUsuario usuario | RFallo fallo

definition procesar_usuario ::
  "entorno \<Rightarrow> frase_data \<Rightarrow> bool \<Rightarrow> usuario \<Rightarrow> mundo \<Rightarrow> resultado option \<times> mundo" where
  "procesar_usuario env fr is_retry u w =
     (let w1 = w\<lparr>intentos := intentos w @ [u]\<rparr>
      in case e_enviar_correo env fr u of
           Devuelve True \<Rightarrow>
             (Some (RUsuario u),
              w1\<lparr>metrics := add_success (e_duracion env u) (metrics w1),
                 trazabilidad := trazabilidad w1 @
                   [(id_frase fr, id_usuario u,
                     if is_retry then ''exito_reintento'' else ''exito'', None)]\<rparr>)
         | Devuelve False \<Rightarrow> (None, w1)
         | Lanza texto \<Rightarrow>
             (let error_msg = ''Error al enviar a '' @ email u @ '': '' @ texto;
                  is_net = is_network_error texto
              in (Some (RFallo (Fallo u error_msg is_net)),
                  w1\<lparr>metrics := add_failure error_msg is_net (metrics w1),
                     trazabilidad := trazabilidad w1 @
                       [(id_frase fr, id_usuario u,
                         if is_net then ''error_red'' else ''error'', Some error_msg)]\<rparr>)))"

text \<open>The loop \<^verbatim>\<open>for future in as_completed(futures)\<close>, over the recipients in the order
  in which their futures complete. The handler of that loop
  (\<^verbatim>\<open>except Exception\<close> around \<^verbatim>\<open>future.result()\<close>) needs \<^verbatim>\<open>procesar_usuario\<close> itself to
  raise, which it does only for a recipient without \<^verbatim>\<open>'email'\<close> or \<^verbatim>\<open>'id'\<close>; the record
  type has both.\<close>

fun recoger ::
  "entorno \<Rightarrow> frase_data \<Rightarrow> bool \<Rightarrow> usuario list \<Rightarrow> usuario list \<Rightarrow> fallo list \<Rightarrow> mundo
   \<Rightarrow> (usuario list \<times> fallo list) \<times> mundo" where
  "recoger env fr is_retry [] exitosos fallidos w = ((exitosos, fallidos), w)"
| "recoger env fr is_retry (u # us) exitosos fallidos w =
     (case procesar_usuario env fr is_retry u w of
        (Some (RUsuario x), w') \<Rightarrow> recoger env fr is_retry us (exitosos @ [x]) fallidos w'
      | (Some (RFallo f), w') \<Rightarrow> recoger env fr is_retry us exitosos (fallidos @ [f]) w'
      | (None, w') \<Rightarrow> recoger env fr is_retry us exitosos fallidos w')"

text \<open>The order in which \<^verbatim>\<open>as_completed\<close> yields the futures of a submitted batch:
  every future exactly once, sorted by the rank the environment gives to its position.
  The ranks are an input without any constraint; whatever they are, the result is a
  permutation of the batch.\<close>

definition completados :: "entorno \<Rightarrow> usuario list \<Rightarrow> usuario list" where
  "completados env usuarios =
     map snd (sort_key (\<lambda>par. e_turno env usuarios (fst par)) (enumerate 0 usuarios))"

text \<open>\<^verbatim>\<open>ThreadPoolExecutor(max_workers=n)\<close> raises \<^verbatim>\<open>ValueError\<close> for \<open>n \<le> 0\<close>. Leaving the
  \<^verbatim>\<open>with\<close> block waits for every submitted future.\<close>

definition procesar_lote ::
  "entorno \<Rightarrow> config \<Rightarrow> frase_data \<Rightarrow> bool \<Rightarrow> usuario list \<Rightarrow> mundo
   \<Rightarrow> excepcion + ((usuario list \<times> fallo list) \<times> mundo)" where
  "procesar_lote env cfg fr is_retry usuarios w =
     (if max_workers cfg \<le> 0 then Inl ValueError
      else Inr (recoger env fr is_retry (completados env usuarios) [] [] w))"

subsection \<open>Batches\<close>

text \<open>\<^verbatim>\<open>range(0, n, paso)\<close>: \<^verbatim>\<open>ValueError\<close> for a zero step, empty for a negative one,
  and otherwise the multiples of the step below \<open>n\<close>.\<close>

definition rango :: "nat \<Rightarrow> int \<Rightarrow> excepcion + nat list" where
  "rango n paso =
     (if paso = 0 then Inl ValueError
      else if paso < 0 then Inr []
      else Inr (map (\<lambda>k. k * nat paso) [0 ..< (n + nat paso - 1) div nat paso]))"

text \<open>The slices \<^verbatim>\<open>usuarios[i:i + batch_size]\<close> for \<open>i\<close> in that range.\<close>

definition lotes :: "'a list \<Rightarrow> int \<Rightarrow> excepcion + 'a list list" where
  "lotes xs tam =
     (case rango (length xs) tam of
        Inl e \<Rightarrow> Inl e
      | Inr indices \<Rightarrow> Inr (map (\<lambda>i. take (nat tam) (drop i xs)) indices))"

text \<open>The body of the two batch loops (of \<^verbatim>\<open>procesar_envios\<close> and of
  \<^verbatim>\<open>procesar_reintentos_diferidos\<close>): they differ in the \<^verbatim>\<open>is_retry\<close> argument, and the
  second calls \<^verbatim>\<open>add_deferred_retry\<close> once for every success of the batch.\<close>

fun procesar_lotes ::
  "entorno \<Rightarrow> config \<Rightarrow> frase_data \<Rightarrow> bool \<Rightarrow> usuario list list \<Rightarrow> usuario list \<Rightarrow> fallo list
   \<Rightarrow> mundo \<Rightarrow> excepcion + ((usuario list \<times> fallo list) \<times> mundo)" where
  "procesar_lotes env cfg fr is_retry [] exitosos fallidos w = Inr ((exitosos, fallidos), w)"
| "procesar_lotes env cfg fr is_retry (lote # resto) exitosos fallidos w =
     (case procesar_lote env cfg fr is_retry lote w of
        Inl e \<Rightarrow> Inl e
      | Inr ((exitosos_lote, fallidos_lote), w') \<Rightarrow>
          procesar_lotes env cfg fr is_retry resto
            (exitosos @ exitosos_lote) (fallidos @ fallidos_lote)
            (if is_retry
             then w'\<lparr>metrics := (add_deferred_retry ^^ length exitosos_lote) (metrics w')\<rparr>
             else w'))"

subsection \<open>\<^verbatim>\<open>procesar_reintentos_diferidos\<close> and \<^verbatim>\<open>procesar_envios\<close>\<close>

text \<open>The last step of a deferred-retry run (\<^verbatim>\<open>if network_failures: save ... else:
  clear\<close>) and of a fresh run (\<^verbatim>\<open>if network_failures: save\<close>, with no \<^verbatim>\<open>else\<close>).\<close>

definition reconciliar_reintento ::
  "entorno \<Rightarrow> config \<Rightarrow> frase_data \<Rightarrow> fallo list \<Rightarrow> sistema_archivos
   \<Rightarrow> excepcion + sistema_archivos" where
  "reconciliar_reintento env cfg fr usuarios_fallidos f =
     (let network_failures = filter f_is_network_error usuarios_fallidos
      in if network_failures \<noteq> []
         then save_failed_users cfg (e_ahora_marca env) (e_ahora_guardado env)
                network_failures fr f
         else clear_failed_users f)"

definition reconciliar_envio ::
  "entorno \<Rightarrow> config \<Rightarrow> frase_data \<Rightarrow> fallo list \<Rightarrow> sistema_archivos
   \<Rightarrow> excepcion + sistema_archivos" where
  "reconciliar_envio env cfg fr usuarios_fallidos f =
     (let network_failures = filter f_is_network_error usuarios_fallidos
      in if network_failures \<noteq> []
         then save_failed_users cfg (e_ahora_marca env) (e_ahora_guardado env)
                network_failures fr f
         else Inr f)"

definition procesar_reintentos_diferidos ::
  "entorno \<Rightarrow> config \<Rightarrow> mundo \<Rightarrow> excepcion + (resultados \<times> mundo)" where
  "procesar_reintentos_diferidos env cfg w =
     (case load_failed_users (e_ahora_carga env) (fs w) of
        Inl e \<Rightarrow> Inl e
      | Inr None \<Rightarrow> Inr (Fracaso ''No hay reintentos pendientes'', w)
      | Inr (Some failed_data) \<Rightarrow>
          (case r_frase_data failed_data of
             None \<Rightarrow> Inl KeyError
           | Some fr \<Rightarrow>
               (let failed =
                      map f_usuario (filter f_is_network_error (failed_users failed_data))
                in if failed = []
                   then (case clear_failed_users (fs w) of
                           Inl e \<Rightarrow> Inl e
                         | Inr f \<Rightarrow>
                             Inr (Fracaso ''No hay errores de red para reintentar'',
                                  w\<lparr>fs := f\<rparr>))
                   else
                     (case lotes failed (batch_size cfg) of
                        Inl e \<Rightarrow> Inl e
                      | Inr ls \<Rightarrow>
                          (case procesar_lotes env cfg fr True ls [] []
                                  (w\<lparr>metrics :=
                                       set_total_usuarios (length failed) (metrics w)\<rparr>) of
                             Inl e \<Rightarrow> Inl e
                           | Inr ((usuarios_exitosos, usuarios_fallidos), w2) \<Rightarrow>
                               (case reconciliar_reintento env cfg fr usuarios_fallidos
                                       (fs w2) of
                                  Inl e \<Rightarrow> Inl e
                                | Inr f \<Rightarrow>
                                    Inr (Resumen
                                          \<lparr>r_is_retry = True,
                                           r_frase_id = id_frase fr,
                                           r_total_usuarios = length failed,
                                           r_exitosos = length usuarios_exitosos,
                                           r_fallidos = length usuarios_fallidos,
                                           r_errores_red = None,
                                           r_otros_errores = None,
                                           r_usuarios_exitosos = usuarios_exitosos,
                                           r_usuarios_fallidos = usuarios_fallidos,
                                           r_frase = take 100 (frase fr),
                                           r_metricas =
                                             finalizar (e_transcurrido env) (metrics w2)\<rparr>,
                                         w2\<lparr>fs := f\<rparr>)))))))"

text \<open>The part of \<^verbatim>\<open>procesar_envios\<close> after the check for a deferred retry: the fresh
  run.\<close>

definition envio_nuevo :: "entorno \<Rightarrow> config \<Rightarrow> mundo \<Rightarrow> excepcion + (resultados \<times> mundo)" where
  "envio_nuevo env cfg w =
     (case e_frase_dia env of
        Inl e \<Rightarrow> Inl e
      | Inr None \<Rightarrow> Inr (Fracaso ''No hay frase para hoy'', w)
      | Inr (Some fr) \<Rightarrow>
          (case e_usuarios_activos env of
             Inl e \<Rightarrow> Inl e
           | Inr usuarios_activos \<Rightarrow>
               if usuarios_activos = [] then Inr (Fracaso ''No hay usuarios activos'', w)
               else
                 (case lotes usuarios_activos (batch_size cfg) of
                    Inl e \<Rightarrow> Inl e
                  | Inr ls \<Rightarrow>
                      (case procesar_lotes env cfg fr False ls [] []
                              (w\<lparr>metrics :=
                                   set_total_usuarios (length usuarios_activos) (metrics w)\<rparr>) of
                         Inl e \<Rightarrow> Inl e
                       | Inr ((usuarios_exitosos, usuarios_fallidos), w2) \<Rightarrow>
                           (case reconciliar_envio env cfg fr usuarios_fallidos (fs w2) of
                              Inl e \<Rightarrow> Inl e
                            | Inr f \<Rightarrow>
                                Inr (Resumen
                                      \<lparr>r_is_retry = False,
                                       r_frase_id = id_frase fr,
                                       r_total_usuarios = length usuarios_activos,
                                       r_exitosos = length usuarios_exitosos,
                                       r_fallidos = length usuarios_fallidos,
                                       r_errores_red =
                                         Some (length (filter f_is_network_error usuarios_fallidos)),
                                       r_otros_errores =
                                         Some (length (filter (\<lambda>item. \<not> f_is_network_error item)
                                                         usuarios_fallidos)),
                                       r_usuarios_exitosos = usuarios_exitosos,
                                       r_usuarios_fallidos = usuarios_fallidos,
                                       r_frase = take 100 (frase fr),
                                       r_metricas = finalizar (e_transcurrido env) (metrics w2)\<rparr>,
                                     w2\<lparr>fs := f\<rparr>))))))"

definition procesar_envios :: "entorno \<Rightarrow> config \<Rightarrow> mundo \<Rightarrow> excepcion + (resultados \<times> mundo)" where
  "procesar_envios env cfg w =
     (case procesar_reintentos_diferidos env cfg w of
        Inl e \<Rightarrow> Inl e
      | Inr (Resumen r, w') \<Rightarrow> Inr (Resumen r, w')
      | Inr (Fracaso motivo, w') \<Rightarrow> envio_nuevo env cfg w')"

subsection \<open>\<^verbatim>\<open>validar_configuracion\<close> and \<^verbatim>\<open>main\<close>\<close>

text \<open>What the process finds when it starts: the environment variables, the value of
  \<^verbatim>\<open>int(os.getenv("SMTP_PORT", "587"))\<close>, whether the log directory exists and whether
  \<^verbatim>\<open>os.makedirs\<close> can create it, and whether \<^verbatim>\<open>FraseDiariaManager()\<close> can be built
  (\<^verbatim>\<open>EmailService\<close> raises \<^verbatim>\<open>ValueError\<close> for an incomplete mail configuration).\<close>

record ambiente =
  a_getenv :: "string \<Rightarrow> string option"
  a_puerto :: "excepcion + int"
  a_log_dir_existe :: bool
  a_makedirs :: "excepcion + unit"
  a_construccion :: "excepcion + unit"

definition required_env :: "string list" where
  "required_env =
     [''EMAIL_USER'', ''EMAIL_PASSWORD'', ''DB_USER'', ''DB_PASSWORD'',
      ''DB_HOST'', ''DB_NAME'', ''SMTP_SERVER'', ''SMTP_PORT'']"

definition validar_configuracion :: "ambiente \<Rightarrow> bool" where
  "validar_configuracion amb =
     (let missing = filter (\<lambda>var. case a_getenv amb var of None \<Rightarrow> True | Some v \<Rightarrow> v = [])
                      required_env
      in if missing \<noteq> [] then False
         else (case a_puerto amb of
                 Inl e \<Rightarrow> False
               | Inr port \<Rightarrow>
                   if port \<le> 0 \<or> port > 65535 then False
                   else if \<not> a_log_dir_existe amb
                        then (case a_makedirs amb of Inl e \<Rightarrow> False | Inr u \<Rightarrow> True)
                        else True))"

text \<open>\<^verbatim>\<open>main\<close> returns the exit code of the process. \<^verbatim>\<open>generar_reporte\<close> only logs, and
  guards its one call of a collaborator with \<^verbatim>\<open>try\<close>. An exception of any step is caught
  by \<^verbatim>\<open>except Exception\<close>, which returns 1.\<close>

definition codigo_salida :: "resultados \<Rightarrow> int" where
  "codigo_salida resultados =
     (case resultados of
        Resumen r \<Rightarrow>
          if r_exitosos r = r_total_usuarios r then 0
          else if r_exitosos r > 0 then 0
          else 1
      | Fracaso motivo \<Rightarrow> 1)"

definition main :: "ambiente \<Rightarrow> entorno \<Rightarrow> config \<Rightarrow> sistema_archivos \<Rightarrow> int" where
  "main amb env cfg fs0 =
     (case a_construccion amb of
        Inl e \<Rightarrow> 1
      | Inr u \<Rightarrow>
          if \<not> validar_configuracion amb then 1
          else (case procesar_envios env cfg (mundo_inicial fs0) of
                  Inl e \<Rightarrow> 1
                | Inr (resultados, w) \<Rightarrow> codigo_salida resultados))"

subsection \<open>Auxiliary functions for stating properties\<close>

text \<open>Whether a recorded event is a success, whether it is a failure classified as a
  network error, and the duration it carries.\<close>

fun es_exito :: "evento \<Rightarrow> bool" where
  "es_exito (Exito t) = True"
| "es_exito (Error e n) = False"

fun es_error_red :: "evento \<Rightarrow> bool" where
  "es_error_red (Exito t) = False"
| "es_error_red (Error e n) = n"

fun duracion_de :: "evento \<Rightarrow> real" where
  "duracion_de (Exito t) = t"
| "duracion_de (Error e n) = 0"

text \<open>What \<^verbatim>\<open>procesar_usuario\<close> contributes for a list of recipients, taken in the order
  in which they complete: the recipients returned as successes, the failure dictionaries,
  and the calls of the metrics collector.\<close>

definition exitosos_de :: "entorno \<Rightarrow> frase_data \<Rightarrow> usuario list \<Rightarrow> usuario list" where
  "exitosos_de env fr us = filter (\<lambda>u. e_enviar_correo env fr u = Devuelve True) us"

fun fallos_de :: "entorno \<Rightarrow> frase_data \<Rightarrow> usuario list \<Rightarrow> fallo list" where
  "fallos_de env fr [] = []"
| "fallos_de env fr (u # us) =
     (case e_enviar_correo env fr u of
        Lanza texto \<Rightarrow>
          [Fallo u (''Error al enviar a '' @ email u @ '': '' @ texto) (is_network_error texto)]
      | Devuelve b \<Rightarrow> []) @ fallos_de env fr us"

fun eventos_de :: "entorno \<Rightarrow> frase_data \<Rightarrow> usuario list \<Rightarrow> evento list" where
  "eventos_de env fr [] = []"
| "eventos_de env fr (u # us) =
     (case e_enviar_correo env fr u of
        Lanza texto \<Rightarrow>
          [Error (''Error al enviar a '' @ email u @ '': '' @ texto) (is_network_error texto)]
      | Devuelve b \<Rightarrow> (if b then [Exito (e_duracion env u)] else [])) @ eventos_de env fr us"

subsection \<open>Example data\<close>

definition ana :: usuario where
  "ana = \<lparr>id_usuario = 1, email = ''ana@example.com'', nombre = Some ''Ana'',
          tipo_suscripcion = ''premium'', fecha_registro = None\<rparr>"

definition luis :: usuario where
  "luis = \<lparr>id_usuario = 2, email = ''luis@example.com'', nombre = None,
           tipo_suscripcion = ''gratuito'', fecha_registro = None\<rparr>"

definition eva :: usuario where
  "eva = \<lparr>id_usuario = 3, email = ''eva@example.com'', nombre = Some ''Eva'',
          tipo_suscripcion = ''gratuito'', fecha_registro = None\<rparr>"

text \<open>A recipient as \<^verbatim>\<open>get_active_users\<close> returns it when the column \<^verbatim>\<open>fecha_registro\<close> is
  filled: with a \<^verbatim>\<open>datetime\<close> object (here 2024-01-01T00:00:00).\<close>

definition rosa :: usuario where
  "rosa = \<lparr>id_usuario = 4, email = ''rosa@example.com'', nombre = Some ''Rosa'',
           tipo_suscripcion = ''premium'', fecha_registro = Some 63839664000000000\<rparr>"

text \<open>Today's phrase; its \<^verbatim>\<open>creado_en\<close> is \<^verbatim>\<open>NULL\<close>, like \<^verbatim>\<open>fecha_registro\<close> of \<open>ana\<close>, \<open>luis\<close>
  and \<open>eva\<close>, so a record naming them can be dumped as JSON.\<close>

definition frase_hoy :: frase_data where
  "frase_hoy = \<lparr>id_frase = 7, frase = ''Break the ice'', creado_en = None\<rparr>"

text \<open>A file system without the retry file, on which writing and deleting work.\<close>

definition disco_vacio :: sistema_archivos where
  "disco_vacio = \<lparr>archivo = Ausente, escritura = EscrituraOk, borrado_ok = True\<rparr>"

text \<open>A record naming three recipients, each with a failure classified as a network
  error, as \<^verbatim>\<open>save_failed_users\<close> writes it at clock reading 0 under the default delay of
  30 minutes (1800000000 microseconds); and a file system holding it.\<close>

definition registro_tres :: registro where
  "registro_tres =
     \<lparr>timestamp = 0, r_frase_data = Some frase_hoy,
      failed_users =
        map (\<lambda>u. Fallo u (''Error al enviar a '' @ email u @
                              '': [Errno 101] Network is unreachable'') True)
          [ana, luis, eva],
      retry_after = 1800000000\<rparr>"

definition disco_con_registro :: sistema_archivos where
  "disco_con_registro = disco_vacio\<lparr>archivo := Valido registro_tres\<rparr>"

text \<open>The content of a retry file that has the keys \<^verbatim>\<open>retry_after\<close> and \<^verbatim>\<open>failed_users\<close>,
  naming one recipient, but not the key \<^verbatim>\<open>frase_data\<close>.\<close>

definition registro_sin_frase :: registro where
  "registro_sin_frase =
     \<lparr>timestamp = 0, r_frase_data = None,
      failed_users =
        [Fallo ana (''Error al enviar a '' @ email ana @
                      '': [Errno 101] Network is unreachable'') True],
      retry_after = 1800000000\<rparr>"

text \<open>A delivery that works, and three SMTP conditions behind
  \<^verbatim>\<open>EmailService.enviar_correo\<close>: a server that accepts every message at the first
  attempt, a server that fails every attempt with an SMTP error, and a network that is
  down, so that connecting raises \<^verbatim>\<open>OSError\<close> (\<^verbatim>\<open>[Errno 101] Network is unreachable\<close>) at
  every attempt.\<close>

definition entrega_ok :: "frase_data \<Rightarrow> usuario \<Rightarrow> llamada" where
  "entrega_ok fr u = Devuelve True"

definition smtp_ok :: "frase_data \<Rightarrow> usuario \<Rightarrow> nat \<Rightarrow> excepcion + unit" where
  "smtp_ok fr u intento = Inr ()"

definition smtp_caido :: "frase_data \<Rightarrow> usuario \<Rightarrow> nat \<Rightarrow> excepcion + unit" where
  "smtp_caido fr u intento = Inl SMTPException"

definition smtp_sin_red :: "frase_data \<Rightarrow> usuario \<Rightarrow> nat \<Rightarrow> excepcion + unit" where
  "smtp_sin_red fr u intento = Inl OSError"

text \<open>A stand-in for \<^verbatim>\<open>enviar_correo\<close> that raises with a network-unreachable text, as a
  test double would. \<^verbatim>\<open>EmailService.enviar_correo\<close> never raises; the stand-in is what
  reaches the \<^verbatim>\<open>except\<close> branch of \<^verbatim>\<open>procesar_usuario\<close>.\<close>

definition doble_que_lanza :: "frase_data \<Rightarrow> usuario \<Rightarrow> llamada" where
  "doble_que_lanza fr u = Lanza ''[Errno 101] Network is unreachable''"

text \<open>A run at clock reading \<open>t\<close> over the given active recipients, with today's phrase
  present; futures complete in the order of submission (the rank of a position is the
  position), every delivery takes one second.\<close>

definition entorno_de :: "(frase_data \<Rightarrow> usuario \<Rightarrow> llamada) \<Rightarrow> usuario list \<Rightarrow> int \<Rightarrow> entorno" where
  "entorno_de envio activos t =
     \<lparr>e_enviar_correo = envio, e_duracion = (\<lambda>u. 1), e_turno = (\<lambda>us i. i),
      e_frase_dia = Inr (Some frase_hoy), e_usuarios_activos = Inr activos,
      e_ahora_carga = t, e_ahora_marca = t, e_ahora_guardado = t, e_transcurrido = 3\<rparr>"

text \<open>A process start at which construction and validation succeed.\<close>

definition ambiente_ok :: ambiente where
  "ambiente_ok =
     \<lparr>a_getenv = (\<lambda>var. Some ''x''), a_puerto = Inr 587, a_log_dir_existe = True,
      a_makedirs = Inr (), a_construccion = Inr ()\<rparr>"

section \<open>Properties\<close>

subsection \<open>The error classifier\<close>

text \<open>
  Claim C6. \<^verbatim>\<open>is_network_error\<close> is a function of the message alone. It classifies a
  message as a network (transient) failure exactly when the message contains one of seven
  fixed, case-sensitive texts: network unreachable, connection refused, connection timed
  out, the two failures of name resolution, no route to host, connection reset by peer.
  Hence every message containing \<^verbatim>\<open>Connection refused\<close> is transient, and a message
  containing \<^verbatim>\<open>Invalid email address\<close> and none of the seven texts is permanent.
\<close>

theorem is_network_error_transient_iff:
  "(is_network_error msg \<longleftrightarrow>
      sublist ''Network is unreachable'' msg \<or>
      sublist ''Connection refused'' msg \<or>
      sublist ''Connection timed out'' msg \<or>
      sublist ''Name or service not known'' msg \<or>
      sublist ''Temporary failure in name resolution'' msg \<or>
      sublist ''No route to host'' msg \<or>
      sublist ''Connection reset by peer'' msg)
   \<and> (sublist ''Connection refused'' msg \<longrightarrow> is_network_error msg)
   \<and> (sublist ''Invalid email address'' msg
        \<and> \<not> (\<exists>indicator \<in> set network_error_indicators. sublist indicator msg)
        \<longrightarrow> \<not> is_network_error msg)"
  by (simp add: is_network_error_def network_error_indicators_def)

text \<open>The theorem at three messages: one with \<^verbatim>\<open>Connection refused\<close>, one with
  \<^verbatim>\<open>Invalid email address\<close>, and one that differs from an indicator in the case of a
  letter.\<close>

theorem is_network_error_transient_iff_witness:
  "sublist ''Connection refused'' ''[Errno 111] Connection refused''
   \<and> is_network_error ''[Errno 111] Connection refused''
   \<and> sublist ''Invalid email address'' ''550 Invalid email address''
   \<and> \<not> (\<exists>indicator \<in> set network_error_indicators.
            sublist indicator ''550 Invalid email address'')
   \<and> \<not> is_network_error ''550 Invalid email address''
   \<and> \<not> is_network_error ''connection refused''"
proof -
  have a: "sublist ''Connection refused'' ''[Errno 111] Connection refused''"
    by (simp add: sublist_Cons_right)
  have b: "sublist ''Invalid email address'' ''550 Invalid email address''"
    by (simp add: sublist_Cons_right)
  have c: "\<not> (\<exists>indicator \<in> set network_error_indicators.
            sublist indicator ''550 Invalid email address'')"
    by (simp add: network_error_indicators_def sublist_Cons_right)
  have d: "\<not> (sublist ''Network is unreachable'' ''connection refused'' \<or>
      sublist ''Connection refused'' ''connection refused'' \<or>
      sublist ''Connection timed out'' ''connection refused'' \<or>
      sublist ''Name or service not known'' ''connection refused'' \<or>
      sublist ''Temporary failure in name resolution'' ''connection refused'' \<or>
      sublist ''No route to host'' ''connection refused'' \<or>
      sublist ''Connection reset by peer'' ''connection refused'')"
    by (simp add: sublist_Cons_right)
  from a b c d
    is_network_error_transient_iff [of "''[Errno 111] Connection refused''"]
    is_network_error_transient_iff [of "''550 Invalid email address''"]
    is_network_error_transient_iff [of "''connection refused''"]
  show ?thesis by blast
qed

subsection \<open>The metrics collector\<close>

lemma registrar_todos_campos:
  "m_exitosos (registrar_todos evs m) = m_exitosos m + length (filter es_exito evs)
   \<and> m_fallidos (registrar_todos evs m)
       = m_fallidos m + length (filter (\<lambda>ev. \<not> es_exito ev) evs)
   \<and> m_errores_red (registrar_todos evs m) = m_errores_red m + length (filter es_error_red evs)
   \<and> m_tiempo_promedio_envio (registrar_todos evs m)
       = m_tiempo_promedio_envio m @ map duracion_de (filter es_exito evs)"
proof (induction evs arbitrary: m)
  case Nil
  show ?case by simp
next
  case (Cons ev evs)
  show ?case
    by (cases ev) (simp_all add: Cons.IH add_success_def add_failure_def Let_def)
qed

lemma finalizar_promedio:
  "mf_tiempo_promedio_envio (finalizar t m) =
     (if m_tiempo_promedio_envio m = [] then 0
      else sum_list (m_tiempo_promedio_envio m) / real (length (m_tiempo_promedio_envio m)))"
  by (simp add: finalizar_def)

lemma length_filter_mset: "length (filter P xs) = size (filter_mset P (mset xs))"
  by (metis mset_filter size_mset)

lemma sum_list_map_filter_mset:
  "sum_list (map f (filter P xs)) = sum_mset (image_mset f (filter_mset P (mset xs)))"
  by (metis mset_filter mset_map sum_mset_sum_list)

lemma mset_instancia:
  assumes "mset evs = {#Exito 1.5, Exito 2.0, Error e1 True, Error e2 False#}"
  shows "length (filter es_exito evs) = 2"
    and "length (filter (\<lambda>ev. \<not> es_exito ev) evs) = 2"
    and "length (filter es_error_red evs) = 1"
    and "sum_list (map duracion_de (filter es_exito evs)) = 3.5"
  unfolding length_filter_mset sum_list_map_filter_mset assms by simp_all

text \<open>
  Claim C7. \<^verbatim>\<open>finalizar\<close> yields as mean duration the arithmetic mean of the recorded
  success durations, and 0 when no success was recorded. After two successes with
  durations 1.5 and 2.0 and two failures, one of them a network error, recorded in any
  order, it yields 2 successes, 2 failures, 1 network error and the mean 1.75.
\<close>

theorem finalizar_media:
  "mf_tiempo_promedio_envio (finalizar t m) =
     (if m_tiempo_promedio_envio m = [] then 0
      else sum_list (m_tiempo_promedio_envio m) / real (length (m_tiempo_promedio_envio m)))
   \<and> (m_tiempo_promedio_envio m = [] \<longrightarrow> mf_tiempo_promedio_envio (finalizar t m) = 0)
   \<and> (mset evs = {#Exito 1.5, Exito 2.0, Error e1 True, Error e2 False#} \<longrightarrow>
        mf_exitosos (finalizar t (registrar_todos evs metricas_iniciales)) = 2
        \<and> mf_fallidos (finalizar t (registrar_todos evs metricas_iniciales)) = 2
        \<and> mf_errores_red (finalizar t (registrar_todos evs metricas_iniciales)) = 1
        \<and> mf_tiempo_promedio_envio (finalizar t (registrar_todos evs metricas_iniciales))
            = 1.75)"
proof (intro conjI impI)
  show "mf_tiempo_promedio_envio (finalizar t m) =
     (if m_tiempo_promedio_envio m = [] then 0
      else sum_list (m_tiempo_promedio_envio m) / real (length (m_tiempo_promedio_envio m)))"
    by (rule finalizar_promedio)
  show "mf_tiempo_promedio_envio (finalizar t m) = 0" if "m_tiempo_promedio_envio m = []"
    using that by (simp add: finalizar_promedio)
next
  assume h: "mset evs = {#Exito 1.5, Exito 2.0, Error e1 True, Error e2 False#}"
  note c = registrar_todos_campos [of evs metricas_iniciales] mset_instancia [OF h]
  show "mf_exitosos (finalizar t (registrar_todos evs metricas_iniciales)) = 2"
    using c by (simp add: finalizar_def metricas_iniciales_def)
  show "mf_fallidos (finalizar t (registrar_todos evs metricas_iniciales)) = 2"
    using c by (simp add: finalizar_def metricas_iniciales_def)
  show "mf_errores_red (finalizar t (registrar_todos evs metricas_iniciales)) = 1"
    using c by (simp add: finalizar_def metricas_iniciales_def)
  have l: "length (map duracion_de (filter es_exito evs)) = 2"
    using c by simp
  have "m_tiempo_promedio_envio (registrar_todos evs metricas_iniciales)
          = map duracion_de (filter es_exito evs)"
    using c by (simp add: metricas_iniciales_def)
  then show "mf_tiempo_promedio_envio (finalizar t (registrar_todos evs metricas_iniciales))
               = 1.75"
    using c(5) l by (auto simp add: finalizar_promedio simp del: length_map)
qed

text \<open>The theorem at a collector without a success, and at the four events recorded in
  an interleaved order.\<close>

theorem finalizar_media_witness:
  "m_tiempo_promedio_envio metricas_iniciales = []
   \<and> mf_tiempo_promedio_envio (finalizar 3 metricas_iniciales) = 0
   \<and> mset [Exito 1.5, Error ''a'' True, Exito 2.0, Error ''b'' False]
       = {#Exito 1.5, Exito 2.0, Error ''a'' True, Error ''b'' False#}
   \<and> mf_exitosos (finalizar 3 (registrar_todos
        [Exito 1.5, Error ''a'' True, Exito 2.0, Error ''b'' False] metricas_iniciales)) = 2
   \<and> mf_fallidos (finalizar 3 (registrar_todos
        [Exito 1.5, Error ''a'' True, Exito 2.0, Error ''b'' False] metricas_iniciales)) = 2
   \<and> mf_errores_red (finalizar 3 (registrar_todos
        [Exito 1.5, Error ''a'' True, Exito 2.0, Error ''b'' False] metricas_iniciales)) = 1
   \<and> mf_tiempo_promedio_envio (finalizar 3 (registrar_todos
        [Exito 1.5, Error ''a'' True, Exito 2.0, Error ''b'' False] metricas_iniciales)) = 1.75"
proof -
  have a: "m_tiempo_promedio_envio metricas_iniciales = []"
    by (simp add: metricas_iniciales_def)
  have b: "mset [Exito 1.5, Error ''a'' True, Exito 2.0, Error ''b'' False]
       = {#Exito 1.5, Exito 2.0, Error ''a'' True, Error ''b'' False#}"
    by simp
  from a b finalizar_media [of 3 metricas_iniciales
      "[Exito 1.5, Error ''a'' True, Exito 2.0, Error ''b'' False]" "''a''" "''b''"]
  show ?thesis by blast
qed

subsection \<open>The retry store\<close>

lemma load_failed_users_eq:
  "load_failed_users ahora f =
     Inr (case archivo f of
            Valido data \<Rightarrow> if retry_after data \<le> ahora then Some data else None
          | _ \<Rightarrow> None)"
  by (simp add: load_failed_users_def leer_def capturar_def split: archivo.splits)





subsection \<open>Batches\<close>

lemma techo_cubre: "0 < n \<Longrightarrow> a \<le> ((a + n - 1) div n) * (n::nat)"
proof -
  assume n: "0 < n"
  have "(a + n - 1) div n * n + (a + n - 1) mod n = a + n - 1" by simp
  moreover have "(a + n - 1) mod n < n" using n by simp
  ultimately show ?thesis by linarith
qed

lemma bajo_techo: "0 < n \<Longrightarrow> k < (a + n - 1) div n \<Longrightarrow> k * n < (a::nat)"
proof -
  assume n: "0 < n" and k: "k < (a + n - 1) div n"
  from k have "Suc k \<le> (a + n - 1) div n" by simp
  then have "Suc k * n \<le> a + n - 1" using n by (simp add: less_eq_div_iff_mult_less_eq)
  then show ?thesis using n by simp
qed

lemma bajo_techo_completo: "0 < n \<Longrightarrow> Suc k < (a + n - 1) div n \<Longrightarrow> Suc k * n \<le> (a::nat)"
  using bajo_techo [of n "Suc k" a] by simp

lemma concat_trozos:
  "concat (map (\<lambda>k. take n (drop (k * n) xs)) [0..<m]) = take (m * n) xs"
proof (induction m)
  case 0
  show ?case by simp
next
  case (Suc m)
  have "take (m * n + n) xs = take (m * n) xs @ take n (drop (m * n) xs)"
    by (rule take_add)
  then show ?case using Suc by (simp add: add.commute)
qed

lemma butlast_desde_cero: "butlast [0..<m] = [0..<m - 1]"
  by (cases m) simp_all

lemma lotes_positivo:
  assumes "0 < tam"
  shows "lotes xs tam =
           Inr (map (\<lambda>k. take (nat tam) (drop (k * nat tam) xs))
                  [0..<(length xs + nat tam - 1) div nat tam])"
  using assms by (simp add: lotes_def rango_def comp_def)

lemma lotes_concat:
  assumes "0 < tam" and "lotes xs tam = Inr ls"
  shows "concat ls = xs"
proof -
  have n: "0 < nat tam" using assms(1) by simp
  have "ls = map (\<lambda>k. take (nat tam) (drop (k * nat tam) xs))
                  [0..<(length xs + nat tam - 1) div nat tam]"
    using lotes_positivo [OF assms(1), of xs] assms(2) by simp
  then have "concat ls = take ((length xs + nat tam - 1) div nat tam * nat tam) xs"
    by (simp only: concat_trozos)
  then show ?thesis using techo_cubre [OF n, of "length xs"] by simp
qed

lemma lotes_tamanos:
  assumes "0 < tam" and "lotes xs tam = Inr ls"
  shows "\<forall>l \<in> set ls. l \<noteq> [] \<and> length l \<le> nat tam"
    and "\<forall>l \<in> set (butlast ls). length l = nat tam"
proof -
  have n: "0 < nat tam" using assms(1) by simp
  let ?m = "(length xs + nat tam - 1) div nat tam"
  let ?f = "\<lambda>k. take (nat tam) (drop (k * nat tam) xs)"
  have ls: "ls = map ?f [0..<?m]"
    using lotes_positivo [OF assms(1), of xs] assms(2) by simp
  show "\<forall>l \<in> set ls. l \<noteq> [] \<and> length l \<le> nat tam"
  proof
    fix l assume "l \<in> set ls"
    then obtain k where k: "k < ?m" and l: "l = ?f k" using ls by auto
    from bajo_techo [OF n k] have "k * nat tam < length xs" .
    then show "l \<noteq> [] \<and> length l \<le> nat tam" using l n by auto
  qed
  have bl: "butlast ls = map ?f [0..<?m - 1]"
    unfolding ls by (simp only: map_butlast [symmetric] butlast_desde_cero)
  show "\<forall>l \<in> set (butlast ls). length l = nat tam"
  proof
    fix l assume "l \<in> set (butlast ls)"
    then obtain k where k: "k < ?m - 1" and l: "l = ?f k" using bl by auto
    then have "Suc k < ?m" by simp
    from bajo_techo_completo [OF n this] have "Suc k * nat tam \<le> length xs" .
    then show "length l = nat tam" using l by simp
  qed
qed


subsection \<open>Dispatch of a batch and of a list of batches\<close>

lemma registrar_todos_append:
  "registrar_todos (xs @ ys) m = registrar_todos ys (registrar_todos xs m)"
  by (induction xs arbitrary: m) simp_all

text \<open>Whatever ranks the environment gives, the futures of a batch complete in an order
  that is a permutation of the batch; with the rank of a position being the position, it
  is the order of submission.\<close>

lemma completados_mset: "mset (completados env us) = mset us"
proof -
  have "mset (completados env us) = mset (map snd (enumerate 0 us))"
    unfolding completados_def by (simp only: mset_map mset_sort)
  then show ?thesis by (simp only: map_snd_enumerate)
qed

lemma completados_set: "set (completados env us) = set us"
  using completados_mset [of env us] by (metis set_mset_mset)

lemma completados_length: "length (completados env us) = length us"
  using completados_mset [of env us] by (metis size_mset)

lemma completados_en_orden:
  assumes "e_turno env us = (\<lambda>i. i)"
  shows "completados env us = us"
proof -
  have "sorted (map fst (enumerate 0 us))" by simp
  then have "sort_key fst (enumerate 0 us) = enumerate 0 us"
    by (rule sort_key_id_if_sorted)
  then show ?thesis using assms by (simp add: completados_def)
qed

lemma procesar_usuario_eq:
  "procesar_usuario env fr r u w = (res, w') \<Longrightarrow>
     fs w' = fs w \<and> intentos w' = intentos w @ [u]
     \<and> metrics w' = registrar_todos (eventos_de env fr [u]) (metrics w)"
  by (auto simp add: procesar_usuario_def Let_def split: llamada.splits bool.splits if_splits)

lemma recoger_eq:
  "\<exists>w'. recoger env fr r us ex fa w =
          ((ex @ exitosos_de env fr us, fa @ fallos_de env fr us), w')
       \<and> fs w' = fs w \<and> intentos w' = intentos w @ us
       \<and> metrics w' = registrar_todos (eventos_de env fr us) (metrics w)"
proof (induction us arbitrary: ex fa w)
  case Nil
  show ?case by (simp add: exitosos_de_def)
next
  case (Cons u us)
  obtain res w1 where p: "procesar_usuario env fr r u w = (res, w1)"
    by (cases "procesar_usuario env fr r u w")
  note m = procesar_usuario_eq [OF p]
  show ?case
  proof (cases "e_enviar_correo env fr u")
    case (Devuelve b)
    show ?thesis
    proof (cases b)
      case True
      with Devuelve p have res: "res = Some (RUsuario u)"
        by (auto simp add: procesar_usuario_def Let_def)
      from Cons [of "ex @ [u]" fa w1] obtain w' where
        "recoger env fr r us (ex @ [u]) fa w1 =
           (((ex @ [u]) @ exitosos_de env fr us, fa @ fallos_de env fr us), w')"
        "fs w' = fs w1" "intentos w' = intentos w1 @ us"
        "metrics w' = registrar_todos (eventos_de env fr us) (metrics w1)" by blast
      then show ?thesis using p res m Devuelve True
        by (simp add: exitosos_de_def)
    next
      case False
      with Devuelve p have res: "res = None"
        by (auto simp add: procesar_usuario_def Let_def)
      from Cons [of ex fa w1] obtain w' where
        "recoger env fr r us ex fa w1 =
           ((ex @ exitosos_de env fr us, fa @ fallos_de env fr us), w')"
        "fs w' = fs w1" "intentos w' = intentos w1 @ us"
        "metrics w' = registrar_todos (eventos_de env fr us) (metrics w1)" by blast
      then show ?thesis using p res m Devuelve False
        by (simp add: exitosos_de_def)
    qed
  next
    case (Lanza s)
    let ?f = "Fallo u (''Error al enviar a '' @ email u @ '': '' @ s) (is_network_error s)"
    from Lanza p have res: "res = Some (RFallo ?f)"
      by (auto simp add: procesar_usuario_def Let_def)
    from Cons [of ex "fa @ [?f]" w1] obtain w' where
      "recoger env fr r us ex (fa @ [?f]) w1 =
         ((ex @ exitosos_de env fr us, (fa @ [?f]) @ fallos_de env fr us), w')"
      "fs w' = fs w1" "intentos w' = intentos w1 @ us"
      "metrics w' = registrar_todos (eventos_de env fr us) (metrics w1)" by blast
    then show ?thesis using p res m Lanza
      by (simp add: exitosos_de_def)
  qed
qed

lemma procesar_lote_eq:
  assumes "0 < max_workers cfg"
  shows "\<exists>w'. procesar_lote env cfg fr r us w =
            Inr ((exitosos_de env fr (completados env us), fallos_de env fr (completados env us)), w')
       \<and> fs w' = fs w
       \<and> intentos w' = intentos w @ completados env us
       \<and> metrics w' = registrar_todos (eventos_de env fr (completados env us)) (metrics w)"
  using assms
    recoger_eq [of env fr r "completados env us" "[]" "[]" w]
  by (auto simp add: procesar_lote_def)

lemma procesar_lote_sin_workers:
  "max_workers cfg \<le> 0 \<Longrightarrow> procesar_lote env cfg fr r us w = Inl ValueError"
  by (simp add: procesar_lote_def)

lemma procesar_lotes_eq:
  assumes "0 < max_workers cfg"
  shows "\<exists>w'. procesar_lotes env cfg fr r ls ex fa w =
            Inr ((ex @ concat (map (\<lambda>l. exitosos_de env fr (completados env l)) ls),
                  fa @ concat (map (\<lambda>l. fallos_de env fr (completados env l)) ls)), w')
       \<and> fs w' = fs w
       \<and> intentos w' = intentos w @ concat (map (completados env) ls)"
proof (induction ls arbitrary: ex fa w)
  case Nil
  show ?case by simp
next
  case (Cons l ls)
  from procesar_lote_eq [OF assms, of env fr r l w] obtain w1 where
    l: "procesar_lote env cfg fr r l w =
            Inr ((exitosos_de env fr (completados env l), fallos_de env fr (completados env l)), w1)"
    and m: "fs w1 = fs w"
       "intentos w1 = intentos w @ completados env l" by blast
  let ?w2 = "if r then w1\<lparr>metrics := (add_deferred_retry ^^
                 length (exitosos_de env fr (completados env l))) (metrics w1)\<rparr> else w1"
  from Cons [of "ex @ exitosos_de env fr (completados env l)"
      "fa @ fallos_de env fr (completados env l)" ?w2]
  obtain w' where
    "procesar_lotes env cfg fr r ls (ex @ exitosos_de env fr (completados env l))
        (fa @ fallos_de env fr (completados env l)) ?w2 =
       Inr (((ex @ exitosos_de env fr (completados env l)) @
              concat (map (\<lambda>l. exitosos_de env fr (completados env l)) ls),
            (fa @ fallos_de env fr (completados env l)) @
              concat (map (\<lambda>l. fallos_de env fr (completados env l)) ls)), w')"
    "fs w' = fs ?w2"
    "intentos w' = intentos ?w2 @ concat (map (completados env) ls)" by blast
  then show ?case using l m by (cases r) simp_all
qed

lemma procesar_lotes_sin_workers:
  "max_workers cfg \<le> 0 \<Longrightarrow>
     procesar_lotes env cfg fr r ls ex fa w =
       (if ls = [] then Inr ((ex, fa), w) else Inl ValueError)"
  by (cases ls) (simp_all add: procesar_lote_sin_workers)

subsection \<open>Runs\<close>

lemma save_failed_users_total:
  "sin_desborde ahora (retry_delay_minutes cfg) \<Longrightarrow>
     \<exists>f'. save_failed_users cfg marca ahora fallidos fr f = Inr f'"
  by (simp add: save_failed_users_def fecha_tras_def escribir_def Let_def
        split: escritura.splits)


lemma clear_failed_users_total: "\<exists>f'. clear_failed_users f = Inr f'"
  by (simp add: clear_failed_users_def capturar_def borrar_def)

lemma reconciliar_envio_total:
  "sin_desborde (e_ahora_guardado env) (retry_delay_minutes cfg)
   \<or> filter f_is_network_error fa = [] \<Longrightarrow>
     \<exists>f'. reconciliar_envio env cfg fr fa f = Inr f'"
  using save_failed_users_total [of "e_ahora_guardado env" cfg]
  by (auto simp add: reconciliar_envio_def Let_def)

lemma reconciliar_reintento_total:
  "sin_desborde (e_ahora_guardado env) (retry_delay_minutes cfg)
   \<or> filter f_is_network_error fa = [] \<Longrightarrow>
     \<exists>f'. reconciliar_reintento env cfg fr fa f = Inr f'"
  using save_failed_users_total [of "e_ahora_guardado env" cfg] clear_failed_users_total
  by (auto simp add: reconciliar_reintento_def Let_def)

lemma lotes_total: "0 < tam \<Longrightarrow> \<exists>ls. lotes xs tam = Inr ls"
  by (simp add: lotes_positivo)

lemma procesar_lotes_marco:
  assumes "procesar_lotes env cfg fr r ls ex fa w = Inr (res, w')"
  shows "fs w' = fs w"
proof (cases "0 < max_workers cfg")
  case True
  from procesar_lotes_eq [OF True, of env fr r ls ex fa w] assms show ?thesis by auto
next
  case False
  then have "max_workers cfg \<le> 0" by simp
  from procesar_lotes_sin_workers [OF this, of env fr r ls ex fa w] assms show ?thesis
    by (auto split: if_splits)
qed

lemma envio_nuevo_resumen:
  assumes "envio_nuevo env cfg w = Inr (Resumen r, w')"
  shows "\<exists>fr us ls w2.
           e_frase_dia env = Inr (Some fr) \<and> e_usuarios_activos env = Inr us \<and> us \<noteq> []
         \<and> lotes us (batch_size cfg) = Inr ls
         \<and> procesar_lotes env cfg fr False ls [] []
              (w\<lparr>metrics := set_total_usuarios (length us) (metrics w)\<rparr>)
             = Inr ((r_usuarios_exitosos r, r_usuarios_fallidos r), w2)
         \<and> reconciliar_envio env cfg fr (r_usuarios_fallidos r) (fs w2) = Inr (fs w')
         \<and> r_total_usuarios r = length us
         \<and> r_exitosos r = length (r_usuarios_exitosos r)
         \<and> r_fallidos r = length (r_usuarios_fallidos r)
         \<and> \<not> r_is_retry r"
  using assms
  by (auto simp add: envio_nuevo_def split: sum.splits option.splits if_splits prod.splits)

lemma reintentos_resumen:
  assumes "procesar_reintentos_diferidos env cfg w = Inr (Resumen r, w')"
  shows "\<exists>d fr ls w2.
           load_failed_users (e_ahora_carga env) (fs w) = Inr (Some d)
         \<and> r_frase_data d = Some fr
         \<and> map f_usuario (filter f_is_network_error (failed_users d)) \<noteq> []
         \<and> lotes (map f_usuario (filter f_is_network_error (failed_users d))) (batch_size cfg)
             = Inr ls
         \<and> procesar_lotes env cfg fr True ls [] []
              (w\<lparr>metrics := set_total_usuarios
                   (length (map f_usuario (filter f_is_network_error (failed_users d))))
                   (metrics w)\<rparr>)
             = Inr ((r_usuarios_exitosos r, r_usuarios_fallidos r), w2)
         \<and> reconciliar_reintento env cfg fr (r_usuarios_fallidos r) (fs w2) = Inr (fs w')
         \<and> r_total_usuarios r
             = length (map f_usuario (filter f_is_network_error (failed_users d)))
         \<and> r_exitosos r = length (r_usuarios_exitosos r)
         \<and> r_fallidos r = length (r_usuarios_fallidos r)
         \<and> r_is_retry r"
  using assms
  by (auto simp add: procesar_reintentos_diferidos_def Let_def
        split: sum.splits option.splits if_splits prod.splits)

lemma resumen_total_positivo:
  assumes "procesar_envios env cfg w = Inr (Resumen r, w')"
  shows "0 < r_total_usuarios r"
proof (cases "procesar_reintentos_diferidos env cfg w")
  case (Inl e)
  with assms show ?thesis by (simp add: procesar_envios_def)
next
  case (Inr p)
  obtain res w0 where p: "p = (res, w0)" by (cases p)
  show ?thesis
  proof (cases res)
    case (Resumen r0)
    with Inr p assms have "procesar_reintentos_diferidos env cfg w = Inr (Resumen r, w')"
      by (simp add: procesar_envios_def)
    from reintentos_resumen [OF this] show ?thesis by auto
  next
    case (Fracaso motivo)
    with Inr p assms have "envio_nuevo env cfg w0 = Inr (Resumen r, w')"
      by (simp add: procesar_envios_def)
    from envio_nuevo_resumen [OF this] show ?thesis by auto
  qed
qed

lemma sin_trabajo:
  assumes "archivo (fs w) = Ausente"
    and "e_frase_dia env = Inr None
         \<or> (\<exists>fr. e_frase_dia env = Inr (Some fr)) \<and> e_usuarios_activos env = Inr []"
  shows "\<exists>motivo. procesar_envios env cfg w = Inr (Fracaso motivo, w)"
  using assms
  by (auto simp add: procesar_envios_def procesar_reintentos_diferidos_def
        load_failed_users_def envio_nuevo_def)

text \<open>Unfolding rules for evaluating a run on the example data.\<close>

lemmas run_defs =
  procesar_envios_def procesar_reintentos_diferidos_def envio_nuevo_def
  load_failed_users_def leer_def capturar_def clear_failed_users_def borrar_def
  save_failed_users_def escribir_def serializable_def fecha_tras_def sin_desborde_def
  datetime_max_def reconciliar_envio_def reconciliar_reintento_def
  lotes_def rango_def procesar_lote_def procesar_usuario_def completados_en_orden
  entorno_de_def mundo_inicial_def disco_vacio_def disco_con_registro_def registro_tres_def
  registro_sin_frase_def EMAIL_CONFIG_defecto_def
  metricas_iniciales_def set_total_usuarios_def add_success_def add_failure_def
  add_deferred_retry_def finalizar_def enviar_correo_def smtp_caido_def smtp_ok_def
  smtp_sin_red_def doble_que_lanza_def
  entrega_ok_def frase_hoy_def ana_def luis_def eva_def rosa_def
  timedelta_minutes_def Let_def upt_rec
  is_network_error_def network_error_indicators_def sublist_Cons_right

text \<open>Runs on the example data. With the stand-in that raises: a fresh run over three
  recipients, which saves the record. With deliveries that work: the deferred retry of the
  record's three recipients, 31 minutes after the record was written, and a run one minute
  after it was written, while the record is not due. With an SMTP server that fails every
  attempt behind \<^verbatim>\<open>EmailService.enviar_correo\<close>: a fresh run over three recipients.\<close>

lemma run_nuevo_doble_que_lanza:
  "\<exists>r w'. procesar_envios (entorno_de doble_que_lanza [ana, luis, eva] 0)
             EMAIL_CONFIG_defecto (mundo_inicial disco_vacio) = Inr (Resumen r, w')
     \<and> \<not> r_is_retry r
     \<and> r_usuarios_fallidos r = failed_users registro_tres
     \<and> r_usuarios_exitosos r = []
     \<and> fs w' = disco_con_registro
     \<and> intentos w' = [ana, luis, eva]"
  by (simp add: run_defs)

lemma run_reintento_ok:
  "\<exists>r w'. procesar_envios (entorno_de entrega_ok [ana, luis, eva] 1860000000)
             EMAIL_CONFIG_defecto (mundo_inicial disco_con_registro) = Inr (Resumen r, w')
     \<and> r_is_retry r
     \<and> r_usuarios_fallidos r = []
     \<and> r_usuarios_exitosos r = [ana, luis, eva]
     \<and> r_exitosos r = 3 \<and> r_total_usuarios r = 3
     \<and> fs w' = disco_vacio
     \<and> intentos w' = [ana, luis, eva]"
  by (simp add: run_defs)

lemma run_nuevo_no_vencido_ok:
  "\<exists>r w'. procesar_envios (entorno_de entrega_ok [ana, luis, eva] 60000000)
             EMAIL_CONFIG_defecto (mundo_inicial disco_con_registro) = Inr (Resumen r, w')
     \<and> \<not> r_is_retry r
     \<and> r_usuarios_fallidos r = []
     \<and> r_usuarios_exitosos r = [ana, luis, eva]
     \<and> fs w' = disco_con_registro
     \<and> intentos w' = [ana, luis, eva]"
  by (simp add: run_defs)

lemma run_nuevo_smtp_caido:
  "\<exists>r w'. procesar_envios (entorno_de (enviar_correo smtp_caido) [ana, luis, eva] 0)
             EMAIL_CONFIG_defecto (mundo_inicial disco_vacio) = Inr (Resumen r, w')
     \<and> \<not> r_is_retry r
     \<and> r_usuarios_fallidos r = []
     \<and> r_usuarios_exitosos r = []
     \<and> r_exitosos r = 0 \<and> r_fallidos r = 0 \<and> r_total_usuarios r = 3
     \<and> fs w' = disco_vacio
     \<and> intentos w' = [ana, luis, eva]"
  by (simp add: run_defs)

subsection \<open>Reconciliation of the retry store\<close>

text \<open>
  Claim C4, as stated, fails for a fresh run: when no network failure remains, a fresh run
  does not clear the store. Here a fresh run, started while a record of an earlier run is
  not yet due, delivers to all three recipients and leaves that record in the file, where
  \<^verbatim>\<open>clear_failed_users\<close> would have removed it.
\<close>

theorem envio_nuevo_no_limpia_counterexample:
  "(case procesar_envios (entorno_de entrega_ok [ana, luis, eva] 60000000)
           EMAIL_CONFIG_defecto (mundo_inicial disco_con_registro) of
      Inr (Resumen r, w) \<Rightarrow>
        \<not> r_is_retry r
        \<and> r_exitosos r = 3 \<and> r_usuarios_fallidos r = []
        \<and> archivo (fs w) = Valido registro_tres
    | _ \<Rightarrow> False)
   \<and> clear_failed_users disco_con_registro = Inr disco_vacio"
  by (simp add: run_defs)

text \<open>
  Claim C4, amended. At the end of every run that dispatched, if any network failures
  remain, \<^verbatim>\<open>save_failed_users\<close> is called with exactly those failures and the run's
  phrase; otherwise a deferred-retry run calls \<^verbatim>\<open>clear_failed_users\<close>, and a fresh run
  leaves the store as the check for a deferred retry left it.
\<close>

theorem reconciliar_segun_tipo_de_run:
  assumes "procesar_envios env cfg w = Inr (Resumen r, w')"
  shows "(r_is_retry r \<longrightarrow>
            (\<exists>d fr0. load_failed_users (e_ahora_carga env) (fs w) = Inr (Some d)
               \<and> r_frase_data d = Some fr0
               \<and> (filter f_is_network_error (r_usuarios_fallidos r) \<noteq> [] \<longrightarrow>
                    save_failed_users cfg (e_ahora_marca env) (e_ahora_guardado env)
                      (filter f_is_network_error (r_usuarios_fallidos r)) fr0 (fs w)
                    = Inr (fs w'))
               \<and> (filter f_is_network_error (r_usuarios_fallidos r) = [] \<longrightarrow>
                    clear_failed_users (fs w) = Inr (fs w'))))
       \<and> (\<not> r_is_retry r \<longrightarrow>
            (\<exists>fr motivo w0. procesar_reintentos_diferidos env cfg w = Inr (Fracaso motivo, w0)
               \<and> e_frase_dia env = Inr (Some fr)
               \<and> (filter f_is_network_error (r_usuarios_fallidos r) \<noteq> [] \<longrightarrow>
                    save_failed_users cfg (e_ahora_marca env) (e_ahora_guardado env)
                      (filter f_is_network_error (r_usuarios_fallidos r)) fr (fs w0)
                    = Inr (fs w'))
               \<and> (filter f_is_network_error (r_usuarios_fallidos r) = [] \<longrightarrow>
                    fs w' = fs w0)))"
proof (cases "procesar_reintentos_diferidos env cfg w")
  case (Inl e)
  with assms show ?thesis by (simp add: procesar_envios_def)
next
  case (Inr p)
  obtain res w0 where p: "p = (res, w0)" by (cases p)
  show ?thesis
  proof (cases res)
    case (Resumen r0)
    with Inr p assms have eq: "r0 = r" "w0 = w'" by (simp_all add: procesar_envios_def)
    with Inr p Resumen have run: "procesar_reintentos_diferidos env cfg w = Inr (Resumen r, w')"
      by simp
    from reintentos_resumen [OF run] obtain d fr0 ls w2 where
      d: "load_failed_users (e_ahora_carga env) (fs w) = Inr (Some d)"
      and f0: "r_frase_data d = Some fr0"
      and l: "procesar_lotes env cfg fr0 True ls [] []
              (w\<lparr>metrics := set_total_usuarios
                   (length (map f_usuario (filter f_is_network_error (failed_users d))))
                   (metrics w)\<rparr>)
             = Inr ((r_usuarios_exitosos r, r_usuarios_fallidos r), w2)"
      and rc: "reconciliar_reintento env cfg fr0 (r_usuarios_fallidos r) (fs w2)
             = Inr (fs w')"
      and rt: "r_is_retry r" by blast
    from procesar_lotes_marco [OF l] have "fs w2 = fs w" by simp
    with rc d f0 rt show ?thesis by (auto simp add: reconciliar_reintento_def Let_def)
  next
    case (Fracaso motivo)
    with Inr p assms have run: "envio_nuevo env cfg w0 = Inr (Resumen r, w')"
      by (simp add: procesar_envios_def)
    from envio_nuevo_resumen [OF run] obtain fr us ls w2 where
      f: "e_frase_dia env = Inr (Some fr)"
      and u: "e_usuarios_activos env = Inr us"
      and l: "procesar_lotes env cfg fr False ls [] []
              (w0\<lparr>metrics := set_total_usuarios (length us) (metrics w0)\<rparr>)
             = Inr ((r_usuarios_exitosos r, r_usuarios_fallidos r), w2)"
      and rc: "reconciliar_envio env cfg fr (r_usuarios_fallidos r) (fs w2) = Inr (fs w')"
      and rt: "\<not> r_is_retry r" by blast
    from procesar_lotes_marco [OF l] have "fs w2 = fs w0" by simp
    with rc f rt Inr p Fracaso show ?thesis by (auto simp add: reconciliar_envio_def Let_def)
  qed
qed

text \<open>The theorem at a fresh run in which the stand-in for \<^verbatim>\<open>enviar_correo\<close> raises for
  each of three recipients, so that three network failures are saved, and at a deferred
  retry that succeeds and clears.\<close>

theorem reconciliar_segun_tipo_de_run_witness:
  "(\<exists>r w'. procesar_envios (entorno_de doble_que_lanza [ana, luis, eva] 0)
             EMAIL_CONFIG_defecto (mundo_inicial disco_vacio) = Inr (Resumen r, w')
      \<and> \<not> r_is_retry r
      \<and> filter f_is_network_error (r_usuarios_fallidos r) \<noteq> []
      \<and> save_failed_users EMAIL_CONFIG_defecto 0 0
           (filter f_is_network_error (r_usuarios_fallidos r)) frase_hoy disco_vacio
         = Inr (fs w'))
   \<and> (\<exists>r w'. procesar_envios (entorno_de entrega_ok [ana, luis, eva] 1860000000)
             EMAIL_CONFIG_defecto (mundo_inicial disco_con_registro) = Inr (Resumen r, w')
      \<and> r_is_retry r
      \<and> filter f_is_network_error (r_usuarios_fallidos r) = []
      \<and> clear_failed_users disco_con_registro = Inr (fs w'))"
proof -
  from run_nuevo_doble_que_lanza obtain r1 w1 where
    a: "procesar_envios (entorno_de doble_que_lanza [ana, luis, eva] 0)
             EMAIL_CONFIG_defecto (mundo_inicial disco_vacio) = Inr (Resumen r1, w1)"
    and a1: "\<not> r_is_retry r1" "r_usuarios_fallidos r1 = failed_users registro_tres"
    by blast
  have a2: "filter f_is_network_error (r_usuarios_fallidos r1) \<noteq> []"
    using a1 by (simp add: registro_tres_def)
  from run_reintento_ok obtain r2 w2 where
    b: "procesar_envios (entorno_de entrega_ok [ana, luis, eva] 1860000000)
             EMAIL_CONFIG_defecto (mundo_inicial disco_con_registro) = Inr (Resumen r2, w2)"
    and b1: "r_is_retry r2" "r_usuarios_fallidos r2 = []"
    by blast
  have b2: "filter f_is_network_error (r_usuarios_fallidos r2) = []"
    using b1 by simp
  from reconciliar_segun_tipo_de_run [OF a] a1 a2
  have "save_failed_users EMAIL_CONFIG_defecto 0 0
           (filter f_is_network_error (r_usuarios_fallidos r1)) frase_hoy disco_vacio
         = Inr (fs w1)"
    by (auto simp add: run_defs)
  moreover from reconciliar_segun_tipo_de_run [OF b] b1 b2
  have "clear_failed_users disco_con_registro = Inr (fs w2)"
    by (auto simp add: entorno_de_def mundo_inicial_def)
  ultimately show ?thesis using a a1 a2 b b1 b2 by blast
qed

subsection \<open>The exit code\<close>

text \<open>
  Claim C3, as stated, fails where there is no work: with no active recipient, and with no
  phrase for today, \<^verbatim>\<open>procesar_envios\<close> returns \<^verbatim>\<open>{'success': False, ...}\<close> and \<^verbatim>\<open>main\<close>
  returns 1.
\<close>

theorem main_sin_trabajo_counterexample:
  "procesar_envios (entorno_de entrega_ok [] 0) EMAIL_CONFIG_defecto (mundo_inicial disco_vacio)
     = Inr (Fracaso ''No hay usuarios activos'', mundo_inicial disco_vacio)
   \<and> main ambiente_ok (entorno_de entrega_ok [] 0) EMAIL_CONFIG_defecto disco_vacio = 1
   \<and> procesar_envios ((entorno_de entrega_ok [ana] 0)\<lparr>e_frase_dia := Inr None\<rparr>)
        EMAIL_CONFIG_defecto (mundo_inicial disco_vacio)
     = Inr (Fracaso ''No hay frase para hoy'', mundo_inicial disco_vacio)
   \<and> main ambiente_ok ((entorno_de entrega_ok [ana] 0)\<lparr>e_frase_dia := Inr None\<rparr>)
        EMAIL_CONFIG_defecto disco_vacio = 1"
  by (simp add: run_defs main_def codigo_salida_def validar_configuracion_def
        ambiente_ok_def required_env_def)

text \<open>
  Claim C3, amended. The exit code is 0 or 1. It is 0 exactly when the manager was built,
  the configuration is valid and the run returned a summary with at least one successful
  delivery. In particular it is 1 when there is no work to do: no retry file and no phrase
  for today, or no active recipient.
\<close>

theorem main_codigo_de_salida:
  "(main amb env cfg f0 = 0 \<or> main amb env cfg f0 = 1)
   \<and> (main amb env cfg f0 = 0 \<longleftrightarrow>
        (\<exists>u. a_construccion amb = Inr u) \<and> validar_configuracion amb
        \<and> (\<exists>r w. procesar_envios env cfg (mundo_inicial f0) = Inr (Resumen r, w)
               \<and> 0 < r_exitosos r))
   \<and> (archivo f0 = Ausente
        \<and> (e_frase_dia env = Inr None
           \<or> (\<exists>fr. e_frase_dia env = Inr (Some fr)) \<and> e_usuarios_activos env = Inr [])
        \<longrightarrow> main amb env cfg f0 = 1)"
proof (intro conjI impI)
  show "main amb env cfg f0 = 0 \<or> main amb env cfg f0 = 1"
    by (simp add: main_def codigo_salida_def split: sum.splits prod.splits resultados.splits)
next
  show "main amb env cfg f0 = 0 \<longleftrightarrow>
        (\<exists>u. a_construccion amb = Inr u) \<and> validar_configuracion amb
        \<and> (\<exists>r w. procesar_envios env cfg (mundo_inicial f0) = Inr (Resumen r, w)
               \<and> 0 < r_exitosos r)"
    using resumen_total_positivo [of env cfg "mundo_inicial f0"]
    by (auto simp add: main_def codigo_salida_def
          split: sum.splits prod.splits resultados.splits if_splits)
next
  assume "archivo f0 = Ausente
        \<and> (e_frase_dia env = Inr None
           \<or> (\<exists>fr. e_frase_dia env = Inr (Some fr)) \<and> e_usuarios_activos env = Inr [])"
  then have a: "archivo (fs (mundo_inicial f0)) = Ausente"
    and b: "e_frase_dia env = Inr None
           \<or> (\<exists>fr. e_frase_dia env = Inr (Some fr)) \<and> e_usuarios_activos env = Inr []"
    by (simp_all add: mundo_inicial_def)
  from sin_trabajo [OF a b, of cfg] show "main amb env cfg f0 = 1"
    by (auto simp add: main_def codigo_salida_def split: sum.splits)
qed

text \<open>The theorem at a deferred retry with three successes (exit code 0), at a run
  without active recipients and at a run in which every delivery fails (exit code 1).\<close>

theorem main_codigo_de_salida_witness:
  "main ambiente_ok (entorno_de entrega_ok [ana, luis, eva] 1860000000) EMAIL_CONFIG_defecto
     disco_con_registro = 0
   \<and> (\<exists>r w. procesar_envios (entorno_de entrega_ok [ana, luis, eva] 1860000000)
               EMAIL_CONFIG_defecto (mundo_inicial disco_con_registro) = Inr (Resumen r, w)
          \<and> 0 < r_exitosos r)
   \<and> archivo disco_vacio = Ausente
   \<and> e_usuarios_activos (entorno_de entrega_ok [] 0) = Inr []
   \<and> main ambiente_ok (entorno_de entrega_ok [] 0) EMAIL_CONFIG_defecto disco_vacio = 1
   \<and> main ambiente_ok (entorno_de (enviar_correo smtp_caido) [ana, luis, eva] 0)
       EMAIL_CONFIG_defecto disco_vacio = 1"
proof -
  have v: "validar_configuracion ambiente_ok" "a_construccion ambiente_ok = Inr ()"
    by (simp_all add: validar_configuracion_def ambiente_ok_def required_env_def)
  from run_reintento_ok have ok:
    "\<exists>r w. procesar_envios (entorno_de entrega_ok [ana, luis, eva] 1860000000)
               EMAIL_CONFIG_defecto (mundo_inicial disco_con_registro) = Inr (Resumen r, w)
          \<and> 0 < r_exitosos r"
    by auto
  have h: "archivo disco_vacio = Ausente"
    "e_frase_dia (entorno_de entrega_ok [] 0) = Inr (Some frase_hoy)"
    "e_usuarios_activos (entorno_de entrega_ok [] 0) = Inr []"
    by (simp_all add: disco_vacio_def entorno_de_def)
  from run_nuevo_smtp_caido have ko:
    "\<not> (\<exists>r w. procesar_envios (entorno_de (enviar_correo smtp_caido) [ana, luis, eva] 0)
               EMAIL_CONFIG_defecto (mundo_inicial disco_vacio) = Inr (Resumen r, w)
          \<and> 0 < r_exitosos r)"
    by auto
  from v ok h ko
    main_codigo_de_salida [of ambiente_ok "entorno_de entrega_ok [ana, luis, eva] 1860000000"
      EMAIL_CONFIG_defecto disco_con_registro]
    main_codigo_de_salida [of ambiente_ok "entorno_de entrega_ok [] 0"
      EMAIL_CONFIG_defecto disco_vacio]
    main_codigo_de_salida [of ambiente_ok
      "entorno_de (enviar_correo smtp_caido) [ana, luis, eva] 0" EMAIL_CONFIG_defecto
      disco_vacio]
  show ?thesis by auto
qed

subsection \<open>Exceptions of the retry store\<close>








subsection \<open>What a list of batches leaves behind\<close>

lemma procesar_lotes_inv:
  assumes "procesar_lotes env cfg fr r ls ex fa w = Inr ((ex', fa'), w')"
  shows "ex' = ex @ concat (map (\<lambda>l. exitosos_de env fr (completados env l)) ls)"
    and "fa' = fa @ concat (map (\<lambda>l. fallos_de env fr (completados env l)) ls)"
    and "intentos w' = intentos w @ concat (map (completados env) ls)"
proof -
  have "ex' = ex @ concat (map (\<lambda>l. exitosos_de env fr (completados env l)) ls)
      \<and> fa' = fa @ concat (map (\<lambda>l. fallos_de env fr (completados env l)) ls)
      \<and> intentos w' = intentos w @ concat (map (completados env) ls)"
  proof (cases "0 < max_workers cfg")
    case True
    from procesar_lotes_eq [OF True, of env fr r ls ex fa w] assms show ?thesis by auto
  next
    case False
    then have "max_workers cfg \<le> 0" by simp
    from procesar_lotes_sin_workers [OF this, of env fr r ls ex fa w] assms show ?thesis
      by (auto split: if_splits)
  qed
  then show "ex' = ex @ concat (map (\<lambda>l. exitosos_de env fr (completados env l)) ls)"
    and "fa' = fa @ concat (map (\<lambda>l. fallos_de env fr (completados env l)) ls)"
    and "intentos w' = intentos w @ concat (map (completados env) ls)"
    by simp_all
qed

lemma envio_nuevo_mundo:
  assumes "envio_nuevo env cfg w = Inr (Resumen r, w')"
  shows "\<exists>fr us ls w2.
           e_frase_dia env = Inr (Some fr) \<and> e_usuarios_activos env = Inr us
         \<and> lotes us (batch_size cfg) = Inr ls
         \<and> procesar_lotes env cfg fr False ls [] []
              (w\<lparr>metrics := set_total_usuarios (length us) (metrics w)\<rparr>)
             = Inr ((r_usuarios_exitosos r, r_usuarios_fallidos r), w2)
         \<and> intentos w' = intentos w2"
  using assms
  by (auto simp add: envio_nuevo_def split: sum.splits option.splits if_splits prod.splits)

lemma reintentos_mundo:
  assumes "procesar_reintentos_diferidos env cfg w = Inr (Resumen r, w')"
  shows "\<exists>d fr ls w2.
           load_failed_users (e_ahora_carga env) (fs w) = Inr (Some d)
         \<and> r_frase_data d = Some fr
         \<and> lotes (map f_usuario (filter f_is_network_error (failed_users d))) (batch_size cfg)
             = Inr ls
         \<and> procesar_lotes env cfg fr True ls [] []
              (w\<lparr>metrics := set_total_usuarios
                   (length (map f_usuario (filter f_is_network_error (failed_users d))))
                   (metrics w)\<rparr>)
             = Inr ((r_usuarios_exitosos r, r_usuarios_fallidos r), w2)
         \<and> intentos w' = intentos w2"
  using assms
  by (auto simp add: procesar_reintentos_diferidos_def Let_def
        split: sum.splits option.splits if_splits prod.splits)

subsection \<open>Deliveries that fail without raising\<close>

lemma intentar_envio_iff:
  "intentar_envio sesion intentos_l \<longleftrightarrow> (\<exists>i \<in> set intentos_l. \<exists>x. sesion i = Inr x)"
  by (induction intentos_l) (auto split: sum.splits)

lemma exitosos_de_miembro:
  "x \<in> set (exitosos_de env fr us) \<Longrightarrow> x \<in> set us \<and> e_enviar_correo env fr x = Devuelve True"
  by (simp add: exitosos_de_def)

lemma fallos_de_miembro:
  "f \<in> set (fallos_de env fr us) \<Longrightarrow>
     f_usuario f \<in> set us \<and> (\<exists>texto. e_enviar_correo env fr (f_usuario f) = Lanza texto)"
proof (induction us)
  case Nil
  then show ?case by simp
next
  case (Cons u us)
  show ?case
  proof (cases "e_enviar_correo env fr u")
    case (Devuelve b)
    with Cons show ?thesis by auto
  next
    case (Lanza texto)
    with Cons show ?thesis by auto
  qed
qed

lemma todos_devuelven_false:
  assumes "\<forall>u \<in> set us. e_enviar_correo env fr u = Devuelve False"
  shows "exitosos_de env fr us = []" and "fallos_de env fr us = []"
    and "eventos_de env fr us = []"
  using assms by (induction us) (simp_all add: exitosos_de_def)

lemma procesar_lote_inv:
  assumes "procesar_lote env cfg fr r us w = Inr ((ex, fa), w')"
  shows "ex = exitosos_de env fr (completados env us)"
    and "fa = fallos_de env fr (completados env us)"
    and "metrics w' = registrar_todos (eventos_de env fr (completados env us)) (metrics w)"
    and "fs w' = fs w"
proof -
  have mw: "0 < max_workers cfg"
    using assms by (auto simp add: procesar_lote_def split: if_splits)
  from procesar_lote_eq [OF mw, of env fr r us w] assms
  show "ex = exitosos_de env fr (completados env us)"
    and "fa = fallos_de env fr (completados env us)"
    and "metrics w' = registrar_todos (eventos_de env fr (completados env us)) (metrics w)"
    and "fs w' = fs w"
    by auto
qed

lemma save_archivo:
  "save_failed_users cfg marca ahora nf fr f = Inr f' \<Longrightarrow>
     archivo f' = archivo f \<or> archivo f' = Corrupto
     \<or> (\<exists>d. archivo f' = Valido d \<and> failed_users d = nf)"
  by (auto simp add: save_failed_users_def fecha_tras_def escribir_def Let_def
        split: escritura.splits if_splits)

lemma clear_archivo:
  "clear_failed_users f = Inr f' \<Longrightarrow> archivo f' = archivo f \<or> archivo f' = Ausente"
  by (auto simp add: clear_failed_users_def capturar_def borrar_def split: if_splits)

lemma reintentos_fracaso_archivo:
  assumes "procesar_reintentos_diferidos env cfg w = Inr (Fracaso motivo, w0)"
  shows "archivo (fs w0) = archivo (fs w) \<or> archivo (fs w0) = Ausente"
proof (cases "load_failed_users (e_ahora_carga env) (fs w)")
  case (Inl e)
  with assms show ?thesis by (simp add: procesar_reintentos_diferidos_def)
next
  case (Inr cargado)
  show ?thesis
  proof (cases cargado)
    case None
    with Inr assms show ?thesis by (simp add: procesar_reintentos_diferidos_def)
  next
    case d: (Some d)
    show ?thesis
    proof (cases "r_frase_data d")
      case None
      with Inr d assms show ?thesis by (simp add: procesar_reintentos_diferidos_def)
    next
      case (Some fr)
      show ?thesis
      proof (cases "map f_usuario (filter f_is_network_error (failed_users d)) = []")
        case True
        with Inr d Some assms obtain f where
          "clear_failed_users (fs w) = Inr f" "w0 = w\<lparr>fs := f\<rparr>"
          by (auto simp add: procesar_reintentos_diferidos_def split: sum.splits)
        with clear_archivo [of "fs w" f] show ?thesis by auto
      next
        case False
        with Inr d Some assms show ?thesis
          by (auto simp add: procesar_reintentos_diferidos_def Let_def
                split: sum.splits prod.splits)
      qed
    qed
  qed
qed

lemma devuelve_false_fuera:
  assumes "e_enviar_correo env fr u = Devuelve False"
  shows "u \<notin> set (exitosos_de env fr us)"
    and "u \<notin> f_usuario ` set (fallos_de env fr us)"
proof -
  show "u \<notin> set (exitosos_de env fr us)"
    using assms by (simp add: exitosos_de_def)
  show "u \<notin> f_usuario ` set (fallos_de env fr us)"
  proof
    assume "u \<in> f_usuario ` set (fallos_de env fr us)"
    then obtain f where "f \<in> set (fallos_de env fr us)" and "u = f_usuario f" by auto
    with fallos_de_miembro [of f env fr us] assms show False by auto
  qed
qed

lemma run_resultados:
  assumes "procesar_envios env cfg w = Inr (Resumen s, v)"
  shows "\<exists>fr ls.
           r_usuarios_exitosos s = concat (map (\<lambda>l. exitosos_de env fr (completados env l)) ls)
         \<and> r_usuarios_fallidos s = concat (map (\<lambda>l. fallos_de env fr (completados env l)) ls)
         \<and> (archivo (fs v) = archivo (fs w) \<or> archivo (fs v) = Corrupto
            \<or> archivo (fs v) = Ausente
            \<or> (\<exists>d. archivo (fs v) = Valido d
                  \<and> failed_users d = filter f_is_network_error (r_usuarios_fallidos s)))"
proof (cases "procesar_reintentos_diferidos env cfg w")
  case (Inl e)
  with assms show ?thesis by (simp add: procesar_envios_def)
next
  case (Inr p)
  obtain res w0 where p: "p = (res, w0)" by (cases p)
  show ?thesis
  proof (cases res)
    case (Resumen r0)
    with Inr p assms have run: "procesar_reintentos_diferidos env cfg w = Inr (Resumen s, v)"
      by (simp add: procesar_envios_def)
    from reintentos_resumen [OF run] obtain d fr ls w2 where
      ld: "load_failed_users (e_ahora_carga env) (fs w) = Inr (Some d)"
      and l: "procesar_lotes env cfg fr True ls [] []
              (w\<lparr>metrics := set_total_usuarios
                   (length (map f_usuario (filter f_is_network_error (failed_users d))))
                   (metrics w)\<rparr>)
             = Inr ((r_usuarios_exitosos s, r_usuarios_fallidos s), w2)"
      and rc: "reconciliar_reintento env cfg fr (r_usuarios_fallidos s) (fs w2)
             = Inr (fs v)"
      by blast
    from procesar_lotes_marco [OF l] have m: "fs w2 = fs w" by simp
    have "archivo (fs v) = archivo (fs w) \<or> archivo (fs v) = Corrupto
            \<or> archivo (fs v) = Ausente
            \<or> (\<exists>d. archivo (fs v) = Valido d
                  \<and> failed_users d = filter f_is_network_error (r_usuarios_fallidos s))"
      using rc m save_archivo [of cfg "e_ahora_marca env" "e_ahora_guardado env"
          "filter f_is_network_error (r_usuarios_fallidos s)" fr "fs w" "fs v"]
        clear_archivo [of "fs w" "fs v"]
      by (auto simp add: reconciliar_reintento_def Let_def split: if_splits)
    with procesar_lotes_inv(1,2) [OF l] show ?thesis by auto
  next
    case (Fracaso motivo)
    with Inr p assms have run: "envio_nuevo env cfg w0 = Inr (Resumen s, v)"
      by (simp add: procesar_envios_def)
    from Inr p Fracaso have "procesar_reintentos_diferidos env cfg w = Inr (Fracaso motivo, w0)"
      by simp
    from reintentos_fracaso_archivo [OF this]
    have a0: "archivo (fs w0) = archivo (fs w) \<or> archivo (fs w0) = Ausente" .
    from envio_nuevo_resumen [OF run] obtain fr us ls w2 where
      u: "e_usuarios_activos env = Inr us"
      and l: "procesar_lotes env cfg fr False ls [] []
              (w0\<lparr>metrics := set_total_usuarios (length us) (metrics w0)\<rparr>)
             = Inr ((r_usuarios_exitosos s, r_usuarios_fallidos s), w2)"
      and rc: "reconciliar_envio env cfg fr (r_usuarios_fallidos s) (fs w2) = Inr (fs v)"
      by blast
    from procesar_lotes_marco [OF l] have m: "fs w2 = fs w0" by simp
    have "archivo (fs v) = archivo (fs w) \<or> archivo (fs v) = Corrupto
            \<or> archivo (fs v) = Ausente
            \<or> (\<exists>d. archivo (fs v) = Valido d
                  \<and> failed_users d = filter f_is_network_error (r_usuarios_fallidos s))"
      using rc m a0 save_archivo [of cfg "e_ahora_marca env" "e_ahora_guardado env"
          "filter f_is_network_error (r_usuarios_fallidos s)" fr "fs w0" "fs v"]
      by (auto simp add: reconciliar_envio_def Let_def split: if_splits)
    with procesar_lotes_inv(1,2) [OF l] show ?thesis by auto
  qed
qed

text \<open>
  Claim C10. \<^verbatim>\<open>EmailService.enviar_correo\<close> never raises: it returns \<^verbatim>\<open>True\<close> or \<^verbatim>\<open>False\<close>,
  and \<^verbatim>\<open>False\<close> exactly when each of its three attempts fails. For a recipient for whom
  \<^verbatim>\<open>enviar_correo\<close> returns \<^verbatim>\<open>False\<close>, \<^verbatim>\<open>procesar_usuario\<close> returns \<^verbatim>\<open>None\<close> and changes
  nothing but the log of attempts: neither the metrics nor the delivery trace. Such a
  recipient is in neither list that \<^verbatim>\<open>procesar_lote\<close> returns; a batch of such recipients
  yields two empty lists and leaves the metrics and the retry file as they were. In a whole
  run, such a recipient is in neither list of the summary, and no record that the run
  writes to the retry store names them.
\<close>

theorem envio_false_queda_sin_registrar:
  "(\<exists>b. enviar_correo smtp fr u = Devuelve b)
   \<and> (enviar_correo smtp fr u = Devuelve False
        \<longleftrightarrow> (\<forall>i \<in> {1, 2, 3}. \<exists>e. smtp fr u i = Inl e))
   \<and> (e_enviar_correo env fr u = Devuelve False \<longrightarrow>
        procesar_usuario env fr r u w = (None, w\<lparr>intentos := intentos w @ [u]\<rparr>))
   \<and> (e_enviar_correo env fr u = Devuelve False
        \<and> procesar_lote env cfg fr r us w = Inr ((ex, fa), w') \<longrightarrow>
        u \<notin> set ex \<and> u \<notin> f_usuario ` set fa)
   \<and> ((\<forall>x \<in> set us. e_enviar_correo env fr x = Devuelve False)
        \<and> procesar_lote env cfg fr r us w = Inr ((ex, fa), w') \<longrightarrow>
        ex = [] \<and> fa = [] \<and> metrics w' = metrics w \<and> fs w' = fs w)
   \<and> ((\<forall>fr'. e_enviar_correo env fr' u = Devuelve False)
        \<and> procesar_envios env cfg w = Inr (Resumen s, v) \<longrightarrow>
        u \<notin> set (r_usuarios_exitosos s) \<and> u \<notin> f_usuario ` set (r_usuarios_fallidos s)
        \<and> (\<forall>d. archivo (fs v) = Valido d \<and> archivo (fs v) \<noteq> archivo (fs w) \<longrightarrow>
               u \<notin> f_usuario ` set (failed_users d)))"
proof -
  have c1: "\<exists>b. enviar_correo smtp fr u = Devuelve b"
    by (simp add: enviar_correo_def)
  have "\<not> intentar_envio (smtp fr u) [1, 2, 3]
          \<longleftrightarrow> (\<forall>i \<in> {1, 2, 3}. \<exists>e. smtp fr u i = Inl e)"
    unfolding intentar_envio_iff by (auto intro: sum.exhaust)
  then have c2: "enviar_correo smtp fr u = Devuelve False
        \<longleftrightarrow> (\<forall>i \<in> {1, 2, 3}. \<exists>e. smtp fr u i = Inl e)"
    by (simp add: enviar_correo_def)
  have c3: "e_enviar_correo env fr u = Devuelve False \<longrightarrow>
        procesar_usuario env fr r u w = (None, w\<lparr>intentos := intentos w @ [u]\<rparr>)"
    by (simp add: procesar_usuario_def)
  have c4: "e_enviar_correo env fr u = Devuelve False
        \<and> procesar_lote env cfg fr r us w = Inr ((ex, fa), w') \<longrightarrow>
        u \<notin> set ex \<and> u \<notin> f_usuario ` set fa"
  proof
    assume h: "e_enviar_correo env fr u = Devuelve False
        \<and> procesar_lote env cfg fr r us w = Inr ((ex, fa), w')"
    then have pl: "procesar_lote env cfg fr r us w = Inr ((ex, fa), w')" by simp
    from h have "e_enviar_correo env fr u = Devuelve False" by simp
    from procesar_lote_inv(1,2) [OF pl] devuelve_false_fuera [OF this, of "completados env us"]
    show "u \<notin> set ex \<and> u \<notin> f_usuario ` set fa" by simp
  qed
  have c5: "(\<forall>x \<in> set us. e_enviar_correo env fr x = Devuelve False)
        \<and> procesar_lote env cfg fr r us w = Inr ((ex, fa), w') \<longrightarrow>
        ex = [] \<and> fa = [] \<and> metrics w' = metrics w \<and> fs w' = fs w"
  proof
    assume h: "(\<forall>x \<in> set us. e_enviar_correo env fr x = Devuelve False)
        \<and> procesar_lote env cfg fr r us w = Inr ((ex, fa), w')"
    then have pl: "procesar_lote env cfg fr r us w = Inr ((ex, fa), w')"
      and a: "\<forall>x \<in> set (completados env us). e_enviar_correo env fr x = Devuelve False"
      by (simp_all add: completados_set)
    from procesar_lote_inv [OF pl] todos_devuelven_false [OF a]
    show "ex = [] \<and> fa = [] \<and> metrics w' = metrics w \<and> fs w' = fs w" by simp
  qed
  have c6: "(\<forall>fr'. e_enviar_correo env fr' u = Devuelve False)
        \<and> procesar_envios env cfg w = Inr (Resumen s, v) \<longrightarrow>
        u \<notin> set (r_usuarios_exitosos s) \<and> u \<notin> f_usuario ` set (r_usuarios_fallidos s)
        \<and> (\<forall>d. archivo (fs v) = Valido d \<and> archivo (fs v) \<noteq> archivo (fs w) \<longrightarrow>
               u \<notin> f_usuario ` set (failed_users d))"
  proof
    assume h: "(\<forall>fr'. e_enviar_correo env fr' u = Devuelve False)
        \<and> procesar_envios env cfg w = Inr (Resumen s, v)"
    then have run: "procesar_envios env cfg w = Inr (Resumen s, v)"
      and f: "\<And>fr'. e_enviar_correo env fr' u = Devuelve False" by simp_all
    from run_resultados [OF run] obtain fr0 ls where
      ex: "r_usuarios_exitosos s = concat (map (\<lambda>l. exitosos_de env fr0 (completados env l)) ls)"
      and fa: "r_usuarios_fallidos s = concat (map (\<lambda>l. fallos_de env fr0 (completados env l)) ls)"
      and ar: "archivo (fs v) = archivo (fs w) \<or> archivo (fs v) = Corrupto
            \<or> archivo (fs v) = Ausente
            \<or> (\<exists>d. archivo (fs v) = Valido d
                  \<and> failed_users d = filter f_is_network_error (r_usuarios_fallidos s))"
      by blast
    have a: "u \<notin> set (r_usuarios_exitosos s)"
      unfolding ex using devuelve_false_fuera(1) [OF f [of fr0]] by auto
    have b: "u \<notin> f_usuario ` set (r_usuarios_fallidos s)"
      unfolding fa using devuelve_false_fuera(2) [OF f [of fr0]] by auto
    have c: "\<forall>d. archivo (fs v) = Valido d \<and> archivo (fs v) \<noteq> archivo (fs w) \<longrightarrow>
               u \<notin> f_usuario ` set (failed_users d)"
      using ar b by auto
    from a b c
    show "u \<notin> set (r_usuarios_exitosos s) \<and> u \<notin> f_usuario ` set (r_usuarios_fallidos s)
        \<and> (\<forall>d. archivo (fs v) = Valido d \<and> archivo (fs v) \<noteq> archivo (fs w) \<longrightarrow>
               u \<notin> f_usuario ` set (failed_users d))"
      by blast
  qed
  show ?thesis
    by (intro conjI) (rule c1 c2 c3 c4 c5 c6)+
qed

text \<open>The theorem for one recipient behind an SMTP server that fails every attempt.\<close>

theorem envio_false_queda_sin_registrar_witness:
  "enviar_correo smtp_caido frase_hoy ana = Devuelve False
   \<and> procesar_usuario (entorno_de (enviar_correo smtp_caido) [ana] 0) frase_hoy False ana
        (mundo_inicial disco_vacio)
      = (None, (mundo_inicial disco_vacio)\<lparr>intentos := [ana]\<rparr>)
   \<and> (\<exists>w'. procesar_lote (entorno_de (enviar_correo smtp_caido) [ana] 0) EMAIL_CONFIG_defecto
              frase_hoy False [ana] (mundo_inicial disco_vacio) = Inr (([], []), w')
          \<and> metrics w' = metrics (mundo_inicial disco_vacio))
   \<and> (\<exists>s v. procesar_envios (entorno_de (enviar_correo smtp_caido) [ana] 0)
               EMAIL_CONFIG_defecto (mundo_inicial disco_vacio) = Inr (Resumen s, v)
          \<and> ana \<notin> set (r_usuarios_exitosos s)
          \<and> ana \<notin> f_usuario ` set (r_usuarios_fallidos s)
          \<and> archivo (fs v) = Ausente)"
proof -
  let ?env = "entorno_de (enviar_correo smtp_caido) [ana] 0"
  let ?w = "mundo_inicial disco_vacio"
  have a: "\<forall>i \<in> {1, 2, 3}. \<exists>e. smtp_caido frase_hoy ana i = Inl e"
    by (simp add: smtp_caido_def)
  have b: "\<forall>fr'. e_enviar_correo ?env fr' ana = Devuelve False"
    by (simp add: entorno_de_def enviar_correo_def smtp_caido_def)
  have c: "\<forall>x \<in> set [ana]. e_enviar_correo ?env frase_hoy x = Devuelve False"
    by (simp add: entorno_de_def enviar_correo_def smtp_caido_def)
  have d: "\<exists>ex fa w'. procesar_lote ?env EMAIL_CONFIG_defecto frase_hoy False [ana] ?w
             = Inr ((ex, fa), w')"
    by (simp add: procesar_lote_def EMAIL_CONFIG_defecto_def split: prod.splits)
      (metis prod.exhaust)
  have e: "\<exists>s v. procesar_envios ?env EMAIL_CONFIG_defecto ?w = Inr (Resumen s, v)
             \<and> archivo (fs v) = Ausente"
    by (simp add: run_defs)
  have i: "intentos ?w = []" by (simp add: mundo_inicial_def)
  from d obtain ex fa w' where pl:
    "procesar_lote ?env EMAIL_CONFIG_defecto frase_hoy False [ana] ?w = Inr ((ex, fa), w')"
    by blast
  from e obtain s v where run:
    "procesar_envios ?env EMAIL_CONFIG_defecto ?w = Inr (Resumen s, v)"
    and au: "archivo (fs v) = Ausente"
    by blast
  note t = envio_false_queda_sin_registrar
    [of smtp_caido frase_hoy ana ?env False ?w EMAIL_CONFIG_defecto "[ana]" ex fa w' s v]
  from t a have 1: "enviar_correo smtp_caido frase_hoy ana = Devuelve False" by blast
  from t b i have 2: "procesar_usuario ?env frase_hoy False ana ?w
      = (None, ?w\<lparr>intentos := [ana]\<rparr>)" by simp
  from t c pl have 3: "ex = [] \<and> fa = [] \<and> metrics w' = metrics ?w" by blast
  from t b run have 4: "ana \<notin> set (r_usuarios_exitosos s)
       \<and> ana \<notin> f_usuario ` set (r_usuarios_fallidos s)" by blast
  from 1 2 3 4 pl run au show ?thesis by blast
qed

subsection \<open>Every recipient in one outcome category\<close>

text \<open>
  Claim C1 says that after a run every recipient is among the successes or among the
  failures, and that the counters of successes and failures add up to the total. The code
  at the input below: one active recipient, and an SMTP server that fails all three
  attempts of \<^verbatim>\<open>EmailService.enviar_correo\<close>, which therefore returns \<^verbatim>\<open>False\<close>. The run
  reports a total of 1 with both lists empty and both counters 0; the recipient is in no
  category, no delivery trace is written and nothing is scheduled for retry.
\<close>

theorem fallo_smtp_sin_categoria:
  "(case procesar_envios (entorno_de (enviar_correo smtp_caido) [ana] 0) EMAIL_CONFIG_defecto
           (mundo_inicial disco_vacio) of
      Inr (Resumen r, w) \<Rightarrow>
        r_total_usuarios r = 1
        \<and> r_usuarios_exitosos r = [] \<and> r_usuarios_fallidos r = []
        \<and> set (r_usuarios_exitosos r) \<union> f_usuario ` set (r_usuarios_fallidos r) \<noteq> {ana}
        \<and> r_exitosos r + r_fallidos r \<noteq> r_total_usuarios r
        \<and> mf_total_usuarios (r_metricas r) = 1
        \<and> mf_exitosos (r_metricas r) = 0 \<and> mf_fallidos (r_metricas r) = 0
        \<and> intentos w = [ana] \<and> trazabilidad w = [] \<and> archivo (fs w) = Ausente
    | _ \<Rightarrow> False)
   \<and> enviar_correo smtp_caido frase_hoy ana = Devuelve False"
  by (simp add: run_defs)

subsection \<open>A record that is not due, and a record that is due\<close>

lemma mset_concat_completados:
  "mset (concat (map (completados env) ls)) = mset (concat ls)"
  by (induction ls) (simp_all add: completados_mset)

lemma exitos_y_fallos_acotados:
  "length (exitosos_de env fr us) + length (fallos_de env fr us) \<le> length us"
proof (induction us)
  case Nil
  show ?case by (simp add: exitosos_de_def)
next
  case (Cons u us)
  then show ?case
    by (cases "e_enviar_correo env fr u") (simp_all add: exitosos_de_def)
qed

lemma exitos_y_fallos_por_lotes:
  "length (concat (map (\<lambda>l. exitosos_de env fr (completados env l)) ls))
   + length (concat (map (\<lambda>l. fallos_de env fr (completados env l)) ls))
   \<le> length (concat ls)"
proof (induction ls)
  case Nil
  show ?case by simp
next
  case (Cons l ls)
  from exitos_y_fallos_acotados [of env fr "completados env l"]
  have "length (exitosos_de env fr (completados env l))
        + length (fallos_de env fr (completados env l)) \<le> length l"
    by (simp add: completados_length)
  with Cons show ?case by simp
qed

lemma no_vencido_es_envio_nuevo:
  assumes "archivo (fs w) = Valido d" and "e_ahora_carga env < retry_after d"
  shows "procesar_envios env cfg w = envio_nuevo env cfg w"
  using assms
  by (simp add: procesar_envios_def procesar_reintentos_diferidos_def load_failed_users_eq)

lemma envio_nuevo_intentos:
  assumes bs: "0 < batch_size cfg" and mw: "0 < max_workers cfg"
    and fr: "e_frase_dia env = Inr (Some fr)"
    and us: "e_usuarios_activos env = Inr activos" and ne: "activos \<noteq> []"
    and sd: "sin_desborde (e_ahora_guardado env) (retry_delay_minutes cfg)"
  shows "\<exists>r w'. envio_nuevo env cfg w = Inr (Resumen r, w')
           \<and> \<not> r_is_retry r \<and> r_total_usuarios r = length activos
           \<and> mset (intentos w') = mset (intentos w) + mset activos
           \<and> (filter f_is_network_error (r_usuarios_fallidos r) = [] \<longrightarrow> fs w' = fs w)"
proof -
  let ?w0 = "w\<lparr>metrics := set_total_usuarios (length activos) (metrics w)\<rparr>"
  from lotes_total [OF bs] obtain ls where ls: "lotes activos (batch_size cfg) = Inr ls"
    by blast
  from procesar_lotes_eq [OF mw, of env fr False ls "[]" "[]" ?w0] obtain ex fa w2 where
    pl: "procesar_lotes env cfg fr False ls [] [] ?w0 = Inr ((ex, fa), w2)"
    and m: "fs w2 = fs ?w0" "intentos w2 = intentos ?w0 @ concat (map (completados env) ls)"
    by auto
  from reconciliar_envio_total [of env cfg fa fr "fs w2"] sd obtain f where
    rc: "reconciliar_envio env cfg fr fa (fs w2) = Inr f" by blast
  have nf: "filter f_is_network_error fa = [] \<longrightarrow> f = fs w"
    using rc m(1) by (auto simp add: reconciliar_envio_def Let_def)
  have "mset (intentos w2) = mset (intentos w) + mset (concat ls)"
    using m(2) by (simp add: mset_concat_completados)
  then have i: "mset (intentos w2) = mset (intentos w) + mset activos"
    using lotes_concat [OF bs ls] by simp
  from fr us ne ls pl rc nf i show ?thesis
    by (simp add: envio_nuevo_def)
qed

lemma reintento_intentos:
  assumes bs: "0 < batch_size cfg" and mw: "0 < max_workers cfg"
    and ar: "archivo (fs w) = Valido d" and du: "retry_after d \<le> e_ahora_carga env"
    and fd: "r_frase_data d = Some fr"
    and nw: "list_all f_is_network_error (failed_users d)" and ne: "failed_users d \<noteq> []"
    and sd: "sin_desborde (e_ahora_guardado env) (retry_delay_minutes cfg)"
  shows "\<exists>r w'. procesar_envios env cfg w = Inr (Resumen r, w')
           \<and> r_is_retry r \<and> r_total_usuarios r = length (failed_users d)
           \<and> mset (intentos w') = mset (intentos w) + mset (map f_usuario (failed_users d))
           \<and> (r_exitosos r = length (failed_users d) \<longrightarrow>
                clear_failed_users (fs w) = Inr (fs w'))"
proof -
  let ?failed = "map f_usuario (filter f_is_network_error (failed_users d))"
  let ?w0 = "w\<lparr>metrics := set_total_usuarios (length ?failed) (metrics w)\<rparr>"
  have fl: "filter f_is_network_error (failed_users d) = failed_users d"
    using nw by (simp add: list_all_iff)
  have ld: "load_failed_users (e_ahora_carga env) (fs w) = Inr (Some d)"
    using ar du by (simp add: load_failed_users_eq)
  from lotes_total [OF bs] obtain ls where ls: "lotes ?failed (batch_size cfg) = Inr ls"
    by blast
  from procesar_lotes_eq [OF mw, of env fr True ls "[]" "[]" ?w0] obtain w2 where
    pl: "procesar_lotes env cfg fr True ls [] [] ?w0 =
           Inr ((concat (map (\<lambda>l. exitosos_de env fr (completados env l)) ls),
                 concat (map (\<lambda>l. fallos_de env fr (completados env l)) ls)), w2)"
    and m: "fs w2 = fs ?w0" "intentos w2 = intentos ?w0 @ concat (map (completados env) ls)"
    by auto
  let ?ex = "concat (map (\<lambda>l. exitosos_de env fr (completados env l)) ls)"
  let ?fa = "concat (map (\<lambda>l. fallos_de env fr (completados env l)) ls)"
  from reconciliar_reintento_total [of env cfg ?fa fr "fs w2"] sd obtain f where
    rc: "reconciliar_reintento env cfg fr ?fa (fs w2) = Inr f" by blast
  have cc: "concat ls = ?failed" using lotes_concat [OF bs ls] .
  have "length ?ex + length ?fa \<le> length (failed_users d)"
    using exitos_y_fallos_por_lotes [of env fr ls] cc fl by simp
  then have "length ?ex = length (failed_users d) \<longrightarrow> ?fa = []" by auto
  then have cl: "length ?ex = length (failed_users d) \<longrightarrow> clear_failed_users (fs w) = Inr f"
    using rc m(1) by (auto simp add: reconciliar_reintento_def Let_def)
  have "mset (intentos w2) = mset (intentos w) + mset (concat ls)"
    using m(2) by (simp add: mset_concat_completados)
  then have i: "mset (intentos w2) = mset (intentos w) + mset (map f_usuario (failed_users d))"
    using cc fl by simp
  have fne: "?failed \<noteq> []" using fl ne by simp
  have "procesar_reintentos_diferidos env cfg w =
          Inr (Resumen
                \<lparr>r_is_retry = True,
                 r_frase_id = id_frase fr,
                 r_total_usuarios = length ?failed,
                 r_exitosos = length ?ex,
                 r_fallidos = length ?fa,
                 r_errores_red = None,
                 r_otros_errores = None,
                 r_usuarios_exitosos = ?ex,
                 r_usuarios_fallidos = ?fa,
                 r_frase = take 100 (frase fr),
                 r_metricas = finalizar (e_transcurrido env) (metrics w2)\<rparr>,
               w2\<lparr>fs := f\<rparr>)"
    using ld fd fne ls pl rc by (simp add: procesar_reintentos_diferidos_def Let_def)
  then show ?thesis using cl i fl by (simp add: procesar_envios_def)
qed

text \<open>With the network down behind \<^verbatim>\<open>EmailService.enviar_correo\<close>, every attempt raises
  \<^verbatim>\<open>OSError\<close> inside it and it returns \<^verbatim>\<open>False\<close>: a fresh run over three recipients
  records no failure and writes no record.\<close>

lemma run_nuevo_sin_red:
  "\<exists>r w'. procesar_envios (entorno_de (enviar_correo smtp_sin_red) [ana, luis, eva] 0)
             EMAIL_CONFIG_defecto (mundo_inicial disco_vacio) = Inr (Resumen r, w')
     \<and> r_fallidos r = 0 \<and> r_usuarios_fallidos r = []
     \<and> fs w' = disco_vacio
     \<and> intentos w' = [ana, luis, eva]"
  by (simp add: run_defs)

text \<open>
  Claim C2, as stated, fails at the second run. The retry file holds a record that names
  three recipients, written at clock reading 0 with \<^verbatim>\<open>retry_after\<close> 30 minutes later. A run
  one minute after the record was written, with an SMTP server that accepts every message
  behind \<^verbatim>\<open>EmailService.enviar_correo\<close>, finds the record not due and goes on as a fresh
  run: it calls \<^verbatim>\<open>enviar_correo\<close> for the three active recipients and delivers to all of
  them.
\<close>

theorem segundo_run_entrega_counterexample:
  "retry_after registro_tres = 0 + timedelta_minutes 30
   \<and> (case procesar_envios
             (entorno_de (enviar_correo smtp_ok) [ana, luis, eva] (0 + timedelta_minutes 1))
             EMAIL_CONFIG_defecto (mundo_inicial disco_con_registro) of
        Inr (Resumen r, w) \<Rightarrow>
          \<not> r_is_retry r \<and> intentos w = [ana, luis, eva]
          \<and> r_exitosos r = 3 \<and> r_usuarios_exitosos r = [ana, luis, eva]
      | _ \<Rightarrow> False)"
  by (simp add: run_defs)

text \<open>
  Claim C2, amended. Let the retry file hold a record that names three recipients, each
  with a failure classified as a network error, with the phrase and with \<^verbatim>\<open>retry_after\<close> 30
  minutes after a clock reading \<open>t\<close>; let batch size and worker count be positive and the
  configured delay not overflow. A run at \<open>t\<close> plus 1 minute finds the record not due and
  is a fresh run: with a phrase for today and active recipients it returns a summary that
  is not a retry, after calling \<^verbatim>\<open>enviar_correo\<close> once for each active recipient, and it
  leaves the file system as it found it when none of its failures is a network error. A run
  at \<open>t\<close> plus 31 minutes is a deferred retry: it calls \<^verbatim>\<open>enviar_correo\<close> once for each of
  the three recipients of the record and for nobody else, and when all three succeed the
  file system it leaves is the one \<^verbatim>\<open>clear_failed_users\<close> returns.
\<close>

theorem registro_no_vencido_y_vencido:
  assumes "0 < batch_size cfg" and "0 < max_workers cfg"
    and "archivo (fs w) = Valido d"
    and "retry_after d = t + timedelta_minutes 30"
    and "r_frase_data d = Some fr"
    and "map f_usuario (failed_users d) = [u1, u2, u3]"
    and "list_all f_is_network_error (failed_users d)"
    and "sin_desborde (e_ahora_guardado env) (retry_delay_minutes cfg)"
  shows "(e_ahora_carga env = t + timedelta_minutes 1 \<longrightarrow>
            procesar_envios env cfg w = envio_nuevo env cfg w
          \<and> (e_frase_dia env = Inr (Some fr') \<and> e_usuarios_activos env = Inr activos
              \<and> activos \<noteq> [] \<longrightarrow>
               (\<exists>r w'. procesar_envios env cfg w = Inr (Resumen r, w')
                  \<and> \<not> r_is_retry r \<and> r_total_usuarios r = length activos
                  \<and> mset (intentos w') = mset (intentos w) + mset activos
                  \<and> (filter f_is_network_error (r_usuarios_fallidos r) = [] \<longrightarrow>
                       fs w' = fs w))))
       \<and> (e_ahora_carga env = t + timedelta_minutes 31 \<longrightarrow>
            (\<exists>r w'. procesar_envios env cfg w = Inr (Resumen r, w')
               \<and> r_is_retry r \<and> r_total_usuarios r = 3
               \<and> mset (intentos w') = mset (intentos w) + {#u1, u2, u3#}
               \<and> (r_exitosos r = 3 \<longrightarrow> clear_failed_users (fs w) = Inr (fs w'))))"
proof (intro conjI impI)
  assume a: "e_ahora_carga env = t + timedelta_minutes 1"
  then have nd: "e_ahora_carga env < retry_after d"
    using assms(4) by (simp add: timedelta_minutes_def)
  from no_vencido_es_envio_nuevo [OF assms(3) nd]
  show eq: "procesar_envios env cfg w = envio_nuevo env cfg w" .
  assume "e_frase_dia env = Inr (Some fr') \<and> e_usuarios_activos env = Inr activos
              \<and> activos \<noteq> []"
  then have h: "e_frase_dia env = Inr (Some fr')" "e_usuarios_activos env = Inr activos"
    "activos \<noteq> []" by simp_all
  from envio_nuevo_intentos [OF assms(1,2) h assms(8), of w]
  show "\<exists>r w'. procesar_envios env cfg w = Inr (Resumen r, w')
                  \<and> \<not> r_is_retry r \<and> r_total_usuarios r = length activos
                  \<and> mset (intentos w') = mset (intentos w) + mset activos
                  \<and> (filter f_is_network_error (r_usuarios_fallidos r) = [] \<longrightarrow>
                       fs w' = fs w)"
    unfolding eq .
next
  assume a: "e_ahora_carga env = t + timedelta_minutes 31"
  then have du: "retry_after d \<le> e_ahora_carga env"
    using assms(4) by (simp add: timedelta_minutes_def)
  have l: "length (failed_users d) = 3" "failed_users d \<noteq> []"
    using assms(6) by (auto dest: arg_cong [where f = length])
  from reintento_intentos [OF assms(1,2,3) du assms(5,7) l(2) assms(8)] l(1) assms(6)
  show "\<exists>r w'. procesar_envios env cfg w = Inr (Resumen r, w')
               \<and> r_is_retry r \<and> r_total_usuarios r = 3
               \<and> mset (intentos w') = mset (intentos w) + {#u1, u2, u3#}
               \<and> (r_exitosos r = 3 \<longrightarrow> clear_failed_users (fs w) = Inr (fs w'))"
    by (simp add: add.commute)
qed

text \<open>The theorem for the record of the three example recipients written at clock reading
  0, with an SMTP server that accepts every message behind \<^verbatim>\<open>EmailService.enviar_correo\<close>:
  one minute later the three active recipients are served and the record stays; 31
  minutes later, with another recipient active, the three recipients of the record are
  served and the file is removed.\<close>

theorem registro_no_vencido_y_vencido_witness:
  "0 < batch_size EMAIL_CONFIG_defecto \<and> 0 < max_workers EMAIL_CONFIG_defecto
   \<and> retry_after registro_tres = 0 + timedelta_minutes 30
   \<and> r_frase_data registro_tres = Some frase_hoy
   \<and> map f_usuario (failed_users registro_tres) = [ana, luis, eva]
   \<and> list_all f_is_network_error (failed_users registro_tres)
   \<and> (\<exists>r w'. procesar_envios
                (entorno_de (enviar_correo smtp_ok) [ana, luis, eva] (0 + timedelta_minutes 1))
                EMAIL_CONFIG_defecto (mundo_inicial disco_con_registro) = Inr (Resumen r, w')
          \<and> \<not> r_is_retry r \<and> r_total_usuarios r = 3
          \<and> mset (intentos w') = {#ana, luis, eva#}
          \<and> fs w' = disco_con_registro)
   \<and> (\<exists>r w'. procesar_envios
                (entorno_de (enviar_correo smtp_ok) [rosa] (0 + timedelta_minutes 31))
                EMAIL_CONFIG_defecto (mundo_inicial disco_con_registro) = Inr (Resumen r, w')
          \<and> r_is_retry r \<and> r_total_usuarios r = 3 \<and> r_exitosos r = 3
          \<and> mset (intentos w') = {#ana, luis, eva#}
          \<and> clear_failed_users disco_con_registro = Inr (fs w')
          \<and> fs w' = disco_vacio)"
proof -
  let ?e1 = "entorno_de (enviar_correo smtp_ok) [ana, luis, eva] (0 + timedelta_minutes 1)"
  let ?e2 = "entorno_de (enviar_correo smtp_ok) [rosa] (0 + timedelta_minutes 31)"
  let ?w = "mundo_inicial disco_con_registro"
  have c: "0 < batch_size EMAIL_CONFIG_defecto" "0 < max_workers EMAIL_CONFIG_defecto"
    by (simp_all add: EMAIL_CONFIG_defecto_def)
  have d: "archivo (fs ?w) = Valido registro_tres"
    "retry_after registro_tres = 0 + timedelta_minutes 30"
    "r_frase_data registro_tres = Some frase_hoy"
    "map f_usuario (failed_users registro_tres) = [ana, luis, eva]"
    "list_all f_is_network_error (failed_users registro_tres)"
    by (simp_all add: mundo_inicial_def disco_con_registro_def disco_vacio_def
          registro_tres_def timedelta_minutes_def)
  have s: "sin_desborde (e_ahora_guardado ?e1) (retry_delay_minutes EMAIL_CONFIG_defecto)"
    "sin_desborde (e_ahora_guardado ?e2) (retry_delay_minutes EMAIL_CONFIG_defecto)"
    by (simp_all add: entorno_de_def EMAIL_CONFIG_defecto_def sin_desborde_def
          datetime_max_def timedelta_minutes_def)
  have e1: "e_ahora_carga ?e1 = 0 + timedelta_minutes 1"
    "e_frase_dia ?e1 = Inr (Some frase_hoy)"
    "e_usuarios_activos ?e1 = Inr [ana, luis, eva]"
    and e2: "e_ahora_carga ?e2 = 0 + timedelta_minutes 31"
    by (simp_all add: entorno_de_def)
  have i: "intentos ?w = []" "fs ?w = disco_con_registro"
    by (simp_all add: mundo_inicial_def)
  have r1: "\<exists>r w'. procesar_envios ?e1 EMAIL_CONFIG_defecto ?w = Inr (Resumen r, w')
              \<and> r_usuarios_fallidos r = []"
    by (simp add: run_defs)
  have r2: "\<exists>r w'. procesar_envios ?e2 EMAIL_CONFIG_defecto ?w = Inr (Resumen r, w')
              \<and> r_exitosos r = 3 \<and> fs w' = disco_vacio"
    by (simp add: run_defs)
  from registro_no_vencido_y_vencido [OF c d s(1), of frase_hoy "[ana, luis, eva]"] e1 r1 i
  have 1: "\<exists>r w'. procesar_envios ?e1 EMAIL_CONFIG_defecto ?w = Inr (Resumen r, w')
          \<and> \<not> r_is_retry r \<and> r_total_usuarios r = 3
          \<and> mset (intentos w') = {#ana, luis, eva#}
          \<and> fs w' = disco_con_registro"
    by auto
  from registro_no_vencido_y_vencido [OF c d s(2)] e2 r2 i
  have 2: "\<exists>r w'. procesar_envios ?e2 EMAIL_CONFIG_defecto ?w = Inr (Resumen r, w')
          \<and> r_is_retry r \<and> r_total_usuarios r = 3 \<and> r_exitosos r = 3
          \<and> mset (intentos w') = {#ana, luis, eva#}
          \<and> clear_failed_users disco_con_registro = Inr (fs w')
          \<and> fs w' = disco_vacio"
    by auto
  from c d(2-5) 1 2 show ?thesis by blast
qed

end
